theory Spec2Isabelle
  imports
    Complex_Main
    "HOL-Library.Multiset"
    "HOL-Library.AList"
    "HOL-Library.Char_ord"
    "HOL-Library.List_Lexorder"
    "HOL-Library.Product_Lexorder"
begin

section \<open>Python strings\<close>

text \<open>
  Column labels, notes and cell texts are Python \<^verbatim>\<open>str\<close> values. They are modelled as
  \<^typ>\<open>string\<close>, read as ASCII text: \<open>is_space\<close> is what \<^verbatim>\<open>str.strip()\<close> and the regular
  expression class \<^verbatim>\<open>\s\<close> accept below code 128 (tab to carriage return, the four
  separators 28 to 31, and the blank), and \<open>lower\<close> changes the letters A to Z only.
\<close>

definition is_space :: "char \<Rightarrow> bool" where
  "is_space c = (let n = (of_char c :: nat) in (9 \<le> n \<and> n \<le> 13) \<or> (28 \<le> n \<and> n \<le> 32))"

definition lower_char :: "char \<Rightarrow> char" where
  "lower_char c = (let n = (of_char c :: nat) in if 65 \<le> n \<and> n \<le> 90 then char_of (n + 32) else c)"

definition lower :: "string \<Rightarrow> string" where
  "lower s = map lower_char s"

definition strip :: "string \<Rightarrow> string" where
  "strip s = rev (dropWhile is_space (rev (dropWhile is_space s)))"

text \<open>\<^verbatim>\<open>p in s\<close> on strings: \<open>p\<close> occurs in \<open>s\<close> as a contiguous piece.\<close>

fun is_substr :: "string \<Rightarrow> string \<Rightarrow> bool" where
  "is_substr p [] = (p = [])"
| "is_substr p (c # cs) = (take (length p) (c # cs) = p \<or> is_substr p cs)"

text \<open>
  \<^verbatim>\<open>re.sub(r"[...]+", " ", s)\<close>: every maximal run of characters of the class \<open>P\<close> becomes
  one blank.
\<close>

function sub_runs :: "(char \<Rightarrow> bool) \<Rightarrow> string \<Rightarrow> string" where
  "sub_runs P [] = []"
| "sub_runs P (c # cs) =
     (if P c then CHR '' '' # sub_runs P (dropWhile P cs) else c # sub_runs P cs)"
  by pat_completeness auto
termination
  by (relation "measure (\<lambda>(P, s). length s)") (auto simp: length_dropWhile_le less_Suc_eq_le)

text \<open>Decimal text of an integer, as an f-string prints it.\<close>

fun str_nat :: "nat \<Rightarrow> string" where
  "str_nat n = (if n < 10 then [char_of (48 + n)] else str_nat (n div 10) @ [char_of (48 + n mod 10)])"

definition str_int :: "int \<Rightarrow> string" where
  "str_int i = (if i < 0 then CHR ''-'' # str_nat (nat (- i)) else str_nat (nat i))"

text \<open>Python truthiness of an optional string: \<^verbatim>\<open>None\<close> and the empty string are false.\<close>

definition truthy :: "string option \<Rightarrow> bool" where
  "truthy s = (case s of None \<Rightarrow> False | Some t \<Rightarrow> t \<noteq> [])"

section \<open>Tables\<close>

text \<open>
  A cell of a pandas column is a number, a text or missing (\<^verbatim>\<open>NaN\<close>/\<^verbatim>\<open>None\<close>). Numbers are
  exact rationals: sums, means and comparisons are the mathematical ones, without the
  rounding, the infinities and the overflow of 64-bit floats and integers.

  A \<^verbatim>\<open>DataFrame\<close> is its ordered column labels and its rows, each row a dictionary from
  label to cell (the shape of \<^verbatim>\<open>to_dict(orient="records")\<close>), kept as the list of its
  items; a label a row does not bind reads as missing. Labels are strings and a label
  names one column.
\<close>

datatype cell = Num rat | Str string | NaN

type_synonym row = "(string \<times> cell) list"

record dataframe =
  columns :: "string list"
  rows :: "row list"

datatype py_error =
  ValueError string | KeyError string | TypeError string | AttributeError string

definition cell_at :: "row \<Rightarrow> string \<Rightarrow> cell" where
  "cell_at r c = (case map_of r c of Some v \<Rightarrow> v | None \<Rightarrow> NaN)"

text \<open>\<^verbatim>\<open>df[c]\<close> for a label \<open>c\<close> of the frame.\<close>

definition series :: "dataframe \<Rightarrow> string \<Rightarrow> cell list" where
  "series df c = map (\<lambda>r. cell_at r c) (rows df)"

text \<open>\<^verbatim>\<open>df[c] = f(row)\<close>: replaces the column or appends a new one on the right.\<close>

definition set_col :: "dataframe \<Rightarrow> string \<Rightarrow> (row \<Rightarrow> cell) \<Rightarrow> dataframe" where
  "set_col df c f =
     \<lparr>columns = (if c \<in> set (columns df) then columns df else columns df @ [c]),
      rows = map (\<lambda>r. AList.update c (f r) r) (rows df)\<rparr>"

text \<open>
  \<^verbatim>\<open>pd.to_numeric(s, errors="coerce")\<close>, cell by cell. How pandas reads a text as a number is
  the parameter \<open>P\<close> of every function that coerces: \<open>P s = None\<close> when the text is not a
  number.
\<close>

fun to_numeric :: "(string \<Rightarrow> rat option) \<Rightarrow> cell \<Rightarrow> cell" where
  "to_numeric P (Num x) = Num x"
| "to_numeric P (Str s) = (case P s of Some x \<Rightarrow> Num x | None \<Rightarrow> NaN)"
| "to_numeric P NaN = NaN"

fun num_of :: "cell \<Rightarrow> rat option" where
  "num_of (Num x) = Some x"
| "num_of (Str s) = None"
| "num_of NaN = None"

text \<open>\<^verbatim>\<open>.dropna()\<close> on a numeric series: the numbers that are left.\<close>

definition dropna :: "cell list \<Rightarrow> rat list" where
  "dropna cs = List.map_filter num_of cs"

text \<open>\<^verbatim>\<open>int(x)\<close> and \<^verbatim>\<open>.astype(int)\<close> cut the fraction off, towards zero.\<close>

definition py_int :: "rat \<Rightarrow> int" where
  "py_int x = (if 0 \<le> x then \<lfloor>x\<rfloor> else \<lceil>x\<rceil>)"

fun maximum :: "'a::linorder list \<Rightarrow> 'a option" where
  "maximum [] = None"
| "maximum (x # xs) = Some (fold max xs x)"

fun minimum :: "'a::linorder list \<Rightarrow> 'a option" where
  "minimum [] = None"
| "minimum (x # xs) = Some (fold min xs x)"

text \<open>\<^verbatim>\<open>.mean()\<close> of the numbers of a series; \<^verbatim>\<open>NaN\<close> when there is none.\<close>

definition mean :: "rat list \<Rightarrow> cell" where
  "mean xs = (if xs = [] then NaN else Num (sum_list xs / of_nat (length xs)))"

text \<open>\<^verbatim>\<open>(s >= lo) & (s <= hi)\<close> on one cell of a coerced series: false on a missing cell.\<close>

fun in_years :: "int \<Rightarrow> int \<Rightarrow> cell \<Rightarrow> bool" where
  "in_years lo hi (Num y) = (of_int lo \<le> y \<and> y \<le> of_int hi)"
| "in_years lo hi (Str s) = False"
| "in_years lo hi NaN = False"

text \<open>\<^verbatim>\<open>df[(df[y] >= lo) & (df[y] <= hi)]\<close>, on the rows of a frame with a coerced column \<open>y\<close>.\<close>

definition year_window :: "row list \<Rightarrow> string \<Rightarrow> int \<Rightarrow> int \<Rightarrow> row list" where
  "year_window rs y lo hi = filter (\<lambda>r. in_years lo hi (cell_at r y)) rs"

text \<open>
  \<^verbatim>\<open>int(s.dropna().astype(int).max())\<close> on the numbers of a series; \<open>None\<close> when there is
  no number (the maximum is \<^verbatim>\<open>NaN\<close> then).
\<close>

definition max_year_of :: "rat list \<Rightarrow> int option" where
  "max_year_of ys = maximum (map py_int ys)"

section \<open>query\_executor.py\<close>

subsection \<open>Column names\<close>

definition is_punct :: "char \<Rightarrow> bool" where
  "is_punct c = (c \<in> set [CHR ''-'', CHR ''_'', CHR ''/'', CHR 0x5C, CHR ''('', CHR '')'', CHR '',''])"

text \<open>
  The inner function \<^verbatim>\<open>norm\<close> of \<^verbatim>\<open>_normalize_columns\<close> (here \<open>norm_str\<close>), on a string
  label: strip first, then punctuation runs to a blank, then whitespace runs to a blank,
  then lower case.
\<close>

definition norm_str :: "string \<Rightarrow> string" where
  "norm_str s = lower (sub_runs is_space (sub_runs is_punct (strip s)))"

text \<open>
  \<^verbatim>\<open>df_norm\<close> is the frame with every label replaced by its normal form. Two labels may
  get the same normal form, so it is kept as the list of its columns, label and series.
  \<^verbatim>\<open>col_map\<close> is a dictionary built in column order: a later label overwrites an earlier
  one with the same normal form.
\<close>

type_synonym norm_frame = "(string \<times> cell list) list"

definition normalize_columns :: "dataframe \<Rightarrow> norm_frame \<times> (string \<rightharpoonup> string)" where
  "normalize_columns df =
     (map (\<lambda>c. (norm_str c, series df c)) (columns df),
      map_of (rev (map (\<lambda>c. (norm_str c, c)) (columns df))))"

text \<open>
  \<^verbatim>\<open>df_norm[nc]\<close> is a series when exactly one column has the label, and a frame of all
  the columns of that label otherwise (\<open>None\<close> here).
\<close>

definition norm_series :: "norm_frame \<Rightarrow> string \<Rightarrow> cell list option" where
  "norm_series df_norm nc =
     (case filter (\<lambda>p. fst p = nc) df_norm of [p] \<Rightarrow> Some (snd p) | _ \<Rightarrow> None)"

subsection \<open>Detection heuristics\<close>

text \<open>
  \<^verbatim>\<open>_is_year_like_series\<close>. Given a frame instead of a series, \<^verbatim>\<open>pd.to_numeric\<close> raises
  and the function's own handler returns \<^verbatim>\<open>False\<close>.
\<close>

definition is_year_like_series :: "(string \<Rightarrow> rat option) \<Rightarrow> cell list option \<Rightarrow> bool" where
  "is_year_like_series P s =
     (case s of
        None \<Rightarrow> False
      | Some cs \<Rightarrow>
          (let nums = dropna (map (to_numeric P) cs) in
           if length nums < 3 then False
           else (case (minimum nums, maximum nums) of
                   (Some lo, Some hi) \<Rightarrow>
                     (let mn = py_int lo; mx = py_int hi in 1800 \<le> mn \<and> mn \<le> mx \<and> mx \<le> 2100)
                 | _ \<Rightarrow> False)))"

text \<open>
  \<^verbatim>\<open>_find_annual_min_max_candidates\<close>, on the labels of \<^verbatim>\<open>df_norm\<close>. The first loop has no
  \<^verbatim>\<open>break\<close>: the last label with both tokens wins. The two fallback loops stop at the
  first match.
\<close>

definition temp_word :: "string \<Rightarrow> bool" where
  "temp_word nc = (is_substr ''temp'' nc \<or> is_substr ''temperature'' nc \<or> is_substr ''deg'' nc)"

definition find_annual_min_max_candidates :: "string list \<Rightarrow> string option \<times> string option" where
  "find_annual_min_max_candidates names =
     (let (min_col, max_col) =
            fold (\<lambda>nc (mn, mx).
                    (if is_substr ''annual'' nc \<and> is_substr ''min'' nc then Some nc else mn,
                     if is_substr ''annual'' nc \<and> is_substr ''max'' nc then Some nc else mx))
                 names (None, None);
          min_col = (if \<not> truthy min_col
                     then (case find (\<lambda>nc. is_substr ''min'' nc \<and> temp_word nc) names of
                             Some nc \<Rightarrow> Some nc | None \<Rightarrow> min_col)
                     else min_col);
          max_col = (if \<not> truthy max_col
                     then (case find (\<lambda>nc. is_substr ''max'' nc \<and> temp_word nc) names of
                             Some nc \<Rightarrow> Some nc | None \<Rightarrow> max_col)
                     else max_col)
      in (min_col, max_col))"

text \<open>
  The list \<^verbatim>\<open>numeric_cols\<close> that \<^verbatim>\<open>_fallback_numeric_pair\<close> collects: a label without
  \<^verbatim>\<open>"year"\<close> in it, whose series has three numbers or more with a mean in \<open>[-60, 80]\<close>,
  paired with that mean. A label that two columns share raises inside the \<^verbatim>\<open>try\<close> and is
  passed over.
\<close>

definition numeric_candidate :: "(string \<Rightarrow> rat option) \<Rightarrow> norm_frame \<Rightarrow> string \<Rightarrow> (string \<times> rat) option" where
  "numeric_candidate P df_norm nc =
     (if is_substr ''year'' nc then None
      else (case norm_series df_norm nc of
              None \<Rightarrow> None
            | Some cs \<Rightarrow>
                (let nums = dropna (map (to_numeric P) cs) in
                 if 3 \<le> length nums
                 then (let mean_val = sum_list nums / of_nat (length nums) in
                       if - 60 \<le> mean_val \<and> mean_val \<le> 80 then Some (nc, mean_val) else None)
                 else None)))"

definition numeric_cols :: "(string \<Rightarrow> rat option) \<Rightarrow> norm_frame \<Rightarrow> (string \<times> rat) list" where
  "numeric_cols P df_norm = List.map_filter (numeric_candidate P df_norm) (map fst df_norm)"

text \<open>
  \<^verbatim>\<open>_fallback_numeric_pair\<close>. \<^verbatim>\<open>list.sort(key=...)\<close> is stable, as \<open>sort_key\<close> is.
\<close>

definition fallback_numeric_pair :: "(string \<Rightarrow> rat option) \<Rightarrow> norm_frame \<Rightarrow> string option \<times> string option" where
  "fallback_numeric_pair P df_norm =
     (let cands = numeric_cols P df_norm in
      if length cands = 1 then (Some (fst (hd cands)), None)
      else if 2 \<le> length cands
      then (let sorted_cols = sort_key snd cands
            in (Some (fst (hd sorted_cols)), Some (fst (last sorted_cols))))
      else (None, None))"

subsection \<open>National climate average\<close>

text \<open>
  What a loader hands to \<^verbatim>\<open>_compute_national_climate_avg\<close>: \<^verbatim>\<open>None\<close>, something that
  is not a \<^verbatim>\<open>DataFrame\<close>, or a frame.
\<close>

datatype loader_result = PyNone | NotDataFrame | Frame dataframe

record meta_debug =
  columns_sample :: "string list option"
  rows_sample :: "row list option"
  detection_notes :: "string list"
  available_years_sample :: "int list option"

record climate_meta =
  years_used :: "int \<times> int"
  year_column :: string
  min_col :: "string option"
  max_col :: "string option"
  rows_used :: "row list"
  debug :: meta_debug

text \<open>
  The second component of the result: the dictionary \<^verbatim>\<open>meta_debug\<close> itself on every
  path that returns no table, the full \<^verbatim>\<open>meta\<close> (with \<^verbatim>\<open>meta_debug\<close> under
  \<^verbatim>\<open>"debug"\<close>) on success.
\<close>

datatype national_meta = Debug meta_debug | Meta climate_meta

definition add_note :: "meta_debug \<Rightarrow> string \<Rightarrow> meta_debug" where
  "add_note m note = m\<lparr>detection_notes := detection_notes m @ [note]\<rparr>"

text \<open>\<^verbatim>\<open>df.empty\<close>: no column or no row.\<close>

definition empty_frame :: "dataframe \<Rightarrow> bool" where
  "empty_frame df = (columns df = [] \<or> rows df = [])"

text \<open>\<^verbatim>\<open>df.head(10).fillna("").to_dict(orient="records")\<close>.\<close>

definition rows_sample_of :: "dataframe \<Rightarrow> row list" where
  "rows_sample_of df =
     map (\<lambda>r. map (\<lambda>c. (c, case cell_at r c of NaN \<Rightarrow> Str [] | v \<Rightarrow> v)) (columns df))
         (take 10 (rows df))"

text \<open>
  Lines 141 to 158: the label \<^verbatim>\<open>"year"\<close>, else the first label that strips to it, else
  the first column whose values look like years (with a note).
\<close>

definition detect_year_col :: "(string \<Rightarrow> rat option) \<Rightarrow> norm_frame \<Rightarrow> string option \<times> string list" where
  "detect_year_col P df_norm =
     (let names = map fst df_norm;
          year_col_norm = (if ''year'' \<in> set names then Some ''year''
                           else find (\<lambda>nc. strip nc = ''year'') names)
      in case year_col_norm of
           Some nc \<Rightarrow> (Some nc, [])
         | None \<Rightarrow>
             (case find (\<lambda>nc. is_year_like_series P (norm_series df_norm nc)) names of
                Some nc \<Rightarrow> (Some nc, [''Using numeric-like column '' @ [CHR 0x27] @ nc @ [CHR 0x27] @ '' as year''])
              | None \<Rightarrow> (None, [])))"

text \<open>\<^verbatim>\<open>(a + b) / 2.0\<close> on two coerced cells: missing when either is.\<close>

fun half_sum :: "cell \<Rightarrow> cell \<Rightarrow> cell" where
  "half_sum (Num a) (Num b) = Num ((a + b) / 2)"
| "half_sum a b = NaN"

text \<open>\<^verbatim>\<open>.unique()\<close>: the values in order of first appearance.\<close>

definition unique :: "'a list \<Rightarrow> 'a list" where
  "unique xs = rev (remdups (rev xs))"

text \<open>
  The dash in the first fallback note is U+2014, three bytes in UTF-8.
\<close>

definition note_trying_fallback :: string where
  "note_trying_fallback =
     ''No '' @ [CHR 0x27] @ ''annual min/max'' @ [CHR 0x27] @ '' tokens found ''
       @ [CHR 0xE2, CHR 0x80, CHR 0x94] @ '' trying numeric fallback''"

text \<open>
  \<^verbatim>\<open>_compute_national_climate_avg\<close>, in three parts. \<^verbatim>\<open>col_map.get(k)\<close> is \<open>col_map k\<close>. The
  working copy \<^verbatim>\<open>df_work\<close> is a new frame; the argument is only read.

  Lines 174 to 188: the original labels of the detected columns, the coerced year column
  and the new column \<^verbatim>\<open>annual_mean_temp_c\<close>. \<^verbatim>\<open>df_work[use_col]\<close> raises \<^verbatim>\<open>KeyError\<close> on a
  label the frame does not have.
\<close>

definition build_work ::
  "(string \<Rightarrow> rat option) \<Rightarrow> dataframe \<Rightarrow> string \<Rightarrow> string option \<Rightarrow> string option \<Rightarrow> py_error + dataframe" where
  "build_work P df year_col_orig min_col_orig max_col_orig =
     (let df_work = set_col df year_col_orig (\<lambda>r. to_numeric P (cell_at r year_col_orig)) in
      if truthy min_col_orig \<and> truthy max_col_orig
      then Inr (set_col df_work ''annual_mean_temp_c''
             (\<lambda>r. half_sum (to_numeric P (cell_at r (the min_col_orig)))
                            (to_numeric P (cell_at r (the max_col_orig)))))
      else (let use_col = (if truthy min_col_orig then min_col_orig else max_col_orig) in
            case use_col of
              None \<Rightarrow> Inl (KeyError ''None'')
            | Some u \<Rightarrow>
                if u \<in> set (columns df_work)
                then Inr (set_col df_work ''annual_mean_temp_c'' (\<lambda>r. to_numeric P (cell_at r u)))
                else Inl (KeyError u)))"

text \<open>
  Lines 204 to 206: the one-row table of the average over the selected rows, and
  \<^verbatim>\<open>rows_used\<close>, the selected rows with both values present, as dictionaries with the
  year under \<^verbatim>\<open>"year"\<close>.
\<close>

definition national_out :: "row list \<Rightarrow> dataframe" where
  "national_out sel =
     (let avg_val = mean (dropna (map (\<lambda>r. cell_at r ''annual_mean_temp_c'') sel))
      in \<lparr>columns = [''region'', ''avg_annual_mean_temp_c''],
          rows = [[(''region'', Str ''All India''), (''avg_annual_mean_temp_c'', avg_val)]]\<rparr>)"

definition rows_used_of :: "row list \<Rightarrow> string \<Rightarrow> row list" where
  "rows_used_of sel year_col_orig =
     (let ren = (\<lambda>c. if c = year_col_orig then ''year'' else c)
      in map (\<lambda>r. AList.update (ren ''annual_mean_temp_c'') (cell_at r ''annual_mean_temp_c'')
                    [(ren year_col_orig, cell_at r year_col_orig)])
             (filter (\<lambda>r. cell_at r ''annual_mean_temp_c'' \<noteq> NaN) sel))"

text \<open>Lines 190 to 215: the window and the result.\<close>

definition window_result ::
  "meta_debug \<Rightarrow> dataframe \<Rightarrow> string \<Rightarrow> string option \<Rightarrow> string option \<Rightarrow> int
     \<Rightarrow> dataframe option \<times> national_meta" where
  "window_result meta_debug df_work year_col_orig min_col_orig max_col_orig last_n_years =
     (let years = dropna (series df_work year_col_orig) in
      case max_year_of years of
        None \<Rightarrow>
          (None, Debug (add_note meta_debug
             (''Year column '' @ [CHR 0x27] @ year_col_orig @ [CHR 0x27]
                @ '' could not be coerced to numeric'')))
      | Some max_year \<Rightarrow>
          (let min_year = max_year - last_n_years + 1;
               sel = year_window (rows df_work) year_col_orig min_year max_year
           in if sel = []
              then (None, Debug ((add_note meta_debug
                      (''No rows in year range '' @ str_int min_year @ ''..'' @ str_int max_year))
                      \<lparr>available_years_sample := Some (take 10 (unique (map py_int years)))\<rparr>))
              else (Some (national_out sel),
                    Meta \<lparr>years_used = (min_year, max_year),
                          year_column = year_col_orig,
                          min_col = min_col_orig,
                          max_col = max_col_orig,
                          rows_used = rows_used_of sel year_col_orig,
                          debug = meta_debug\<rparr>)))"

text \<open>
  Lines 164 to 172: the token heuristics, then the numeric fallback when they find
  nothing. The result is the pair of labels and the notes that were added.
\<close>

definition detect_min_max ::
  "(string \<Rightarrow> rat option) \<Rightarrow> norm_frame \<Rightarrow> (string option \<times> string option) \<times> string list" where
  "detect_min_max P df_norm =
     (let (min_col_norm, max_col_norm) = find_annual_min_max_candidates (map fst df_norm) in
      if \<not> truthy min_col_norm \<and> \<not> truthy max_col_norm
      then (fallback_numeric_pair P df_norm, [note_trying_fallback])
      else ((min_col_norm, max_col_norm), []))"

text \<open>The function itself.\<close>

definition compute_national_climate_avg ::
  "(string \<Rightarrow> rat option) \<Rightarrow> loader_result \<Rightarrow> int \<Rightarrow> py_error + (dataframe option \<times> national_meta)" where
  "compute_national_climate_avg P df_clim_raw last_n_years =
     (let meta_debug = \<lparr>columns_sample = None, rows_sample = None, detection_notes = [],
                        available_years_sample = None\<rparr>
      in case df_clim_raw of
        PyNone \<Rightarrow> Inr (None, Debug (add_note meta_debug ''climate loader returned None''))
      | NotDataFrame \<Rightarrow>
          Inr (None, Debug (add_note meta_debug ''climate loader did not return a DataFrame''))
      | Frame df \<Rightarrow>
          if empty_frame df
          then Inr (None, Debug ((add_note meta_debug ''climate DataFrame empty'')
                                   \<lparr>columns_sample := Some (columns df)\<rparr>))
          else
            (let meta_debug = meta_debug\<lparr>columns_sample := Some (columns df),
                                          rows_sample := Some (rows_sample_of df)\<rparr>;
                 (df_norm, col_map) = normalize_columns df;
                 (year_col_norm, year_notes) = detect_year_col P df_norm;
                 meta_debug = meta_debug\<lparr>detection_notes := detection_notes meta_debug @ year_notes\<rparr>
             in case year_col_norm of
               None \<Rightarrow> Inr (None, Debug (add_note meta_debug ''No year-like column found''))
             | Some ycn \<Rightarrow>
                 (let ((min_col_norm, max_col_norm), mm_notes) = detect_min_max P df_norm;
                      meta_debug = meta_debug\<lparr>detection_notes := detection_notes meta_debug @ mm_notes\<rparr>
                  in if \<not> truthy min_col_norm \<and> \<not> truthy max_col_norm
                     then Inr (None, Debug (add_note meta_debug
                                 ''No candidate min/max columns found even after fallback''))
                     else
                       (let year_col_orig = (case col_map ycn of Some c \<Rightarrow> c | None \<Rightarrow> ycn);
                            min_col_orig = (if truthy min_col_norm then col_map (the min_col_norm) else None);
                            max_col_orig = (if truthy max_col_norm then col_map (the max_col_norm) else None)
                        in case build_work P df year_col_orig min_col_orig max_col_orig of
                          Inl e \<Rightarrow> Inl e
                        | Inr df_work \<Rightarrow>
                            Inr (window_result meta_debug df_work year_col_orig min_col_orig
                                   max_col_orig last_n_years)))))"

section \<open>analytics.py\<close>

subsection \<open>pandas operations\<close>

text \<open>
  The detection idiom of every function of the module:
  \<^verbatim>\<open>for cand in cands: if cand in cols: col = df.columns[cols.index(cand)]; break\<close>
  with \<^verbatim>\<open>cols\<close> the lower-cased labels. The first label whose lower case is the candidate is
  \<^verbatim>\<open>df.columns[cols.index(cand)]\<close>.
\<close>

fun detect_col :: "string list \<Rightarrow> string list \<Rightarrow> string option" where
  "detect_col [] cols = None"
| "detect_col (cand # cands) cols =
     (case find (\<lambda>c. lower c = cand) cols of
        Some c \<Rightarrow> Some c
      | None \<Rightarrow> detect_col cands cols)"

text \<open>\<^verbatim>\<open>xs or default\<close> for an optional list argument: \<^verbatim>\<open>None\<close> and \<^verbatim>\<open>[]\<close> are false.\<close>

fun or_default :: "'a list option \<Rightarrow> 'a list \<Rightarrow> 'a list" where
  "or_default None d = d"
| "or_default (Some []) d = d"
| "or_default (Some (x # xs)) d = x # xs"

text \<open>
  \<^verbatim>\<open>df.select_dtypes(include=[np.number]).columns.tolist()\<close>. The dtype of a column is the
  one \<^verbatim>\<open>read_csv\<close> infers: numeric when the frame has rows and no cell of the column is a
  text.
\<close>

fun is_text :: "cell \<Rightarrow> bool" where
  "is_text (Str s) = True"
| "is_text c = False"

definition numeric_columns :: "dataframe \<Rightarrow> string list" where
  "numeric_columns df =
     filter (\<lambda>c. rows df \<noteq> [] \<and> list_all (\<lambda>r. \<not> is_text (cell_at r c)) (rows df)) (columns df)"

text \<open>
  \<^verbatim>\<open>.mean()\<close> of a column that may hold texts: pandas 2 raises \<^verbatim>\<open>TypeError\<close> when a text is
  among the values, and skips missing cells otherwise.
\<close>

definition series_mean :: "cell list \<Rightarrow> py_error + cell" where
  "series_mean cs =
     (if list_ex is_text cs then Inl (TypeError ''Could not convert string to numeric'')
      else Inr (mean (dropna cs)))"

text \<open>
  \<^verbatim>\<open>groupby(c)\<close> with its defaults: rows whose key is missing are dropped, and the groups
  come in ascending key order, numbers before texts, texts by code point.
\<close>

fun cell_key :: "cell \<Rightarrow> bool \<times> rat \<times> string" where
  "cell_key (Num x) = (False, x, [])"
| "cell_key (Str s) = (True, 0, s)"
| "cell_key NaN = (True, 1, [])"

definition group_keys :: "cell list \<Rightarrow> cell list" where
  "group_keys cs = sort_key cell_key (remdups (filter (\<lambda>c. c \<noteq> NaN) cs))"

definition groupby :: "row list \<Rightarrow> string \<Rightarrow> (cell \<times> row list) list" where
  "groupby rs c =
     map (\<lambda>k. (k, filter (\<lambda>r. cell_at r c = k) rs)) (group_keys (map (\<lambda>r. cell_at r c) rs))"

text \<open>The first exception of a list of results, or all the values.\<close>

fun collect :: "('e + 'a) list \<Rightarrow> 'e + 'a list" where
  "collect [] = Inr []"
| "collect (Inl e # xs) = Inl e"
| "collect (Inr v # xs) = (case collect xs of Inl e \<Rightarrow> Inl e | Inr vs \<Rightarrow> Inr (v # vs))"

text \<open>\<^verbatim>\<open>.fillna(0)\<close> on one cell.\<close>

fun fillna0 :: "cell \<Rightarrow> cell" where
  "fillna0 NaN = Num 0"
| "fillna0 c = c"

text \<open>\<^verbatim>\<open>.head(n)\<close>: the first \<open>n\<close> rows, or all but the last \<open>-n\<close> when \<open>n\<close> is negative.\<close>

definition head :: "int \<Rightarrow> 'a list \<Rightarrow> 'a list" where
  "head n xs = (if 0 \<le> n then take (nat n) xs else take (length xs - nat (- n)) xs)"

text \<open>
  \<^verbatim>\<open>.astype(str)\<close> on one cell. How pandas prints a number is the parameter \<open>R\<close>.
\<close>

fun cell_str :: "(rat \<Rightarrow> string) \<Rightarrow> cell \<Rightarrow> string" where
  "cell_str R (Num x) = R x"
| "cell_str R (Str s) = s"
| "cell_str R NaN = ''nan''"

text \<open>\<^verbatim>\<open>s == v\<close> on one cell: a missing cell equals nothing.\<close>

definition cell_eq :: "cell \<Rightarrow> cell \<Rightarrow> bool" where
  "cell_eq a b = (a = b \<and> a \<noteq> NaN)"

subsection \<open>Average climate metric by region\<close>

record avg_meta =
  avg_years_used :: "int \<times> int"
  metric_column :: string
  avg_year_column :: string
  state_column :: "string option"

text \<open>
  Lines 55 to 59: the mean of the metric over the rows \<open>df_f\<close> of the window, by state
  when there is a state column. \<^verbatim>\<open>reset_index()\<close> raises when the grouping column is the
  metric column itself.
\<close>

definition avg_out :: "row list \<Rightarrow> string option \<Rightarrow> string \<Rightarrow> string list \<Rightarrow> py_error + dataframe" where
  "avg_out df_f state_col metric_col states =
     (let avg_name = ''avg_'' @ metric_col in
      if truthy state_col
      then
        (let sc = the state_col;
             df_f = filter (\<lambda>r. case cell_at r sc of Str s \<Rightarrow> s \<in> set states | c \<Rightarrow> False) df_f
         in if metric_col = sc
            then Inl (ValueError (''cannot insert '' @ sc @ '', already exists''))
            else
              (case collect (map (\<lambda>(k, g). series_mean (map (\<lambda>r. cell_at r metric_col) g))
                               (groupby df_f sc)) of
                 Inl e \<Rightarrow> Inl e
               | Inr means \<Rightarrow>
                   Inr \<lparr>columns = [sc, avg_name],
                        rows = map (\<lambda>(k, v). [(sc, k), (avg_name, v)])
                                 (zip (map fst (groupby df_f sc)) means)\<rparr>))
      else
        (case series_mean (map (\<lambda>r. cell_at r metric_col) df_f) of
           Inl e \<Rightarrow> Inl e
         | Inr v \<Rightarrow> Inr \<lparr>columns = [avg_name], rows = [[(avg_name, v)]]\<rparr>))"

text \<open>
  \<^verbatim>\<open>avg_annual_climate_metric\<close>. Line 53 assigns the coerced year column to the frame the
  caller passed, so the function is modelled with the caller's frame as state: the
  second component of the result is that frame when the function returns or raises.
  \<^verbatim>\<open>int(...max())\<close> raises \<^verbatim>\<open>ValueError\<close> on the \<^verbatim>\<open>NaN\<close> that the maximum of no value is.
\<close>

definition avg_annual_climate_metric ::
  "(string \<Rightarrow> rat option) \<Rightarrow> dataframe \<Rightarrow> string list \<Rightarrow> string list option \<Rightarrow> string list option
     \<Rightarrow> int \<Rightarrow> (py_error + dataframe \<times> avg_meta) \<times> dataframe" where
  "avg_annual_climate_metric P df_climate states year_col_candidates metric_candidates last_n_years =
     (let cols = columns df_climate;
          year_col = detect_col (or_default year_col_candidates [''year'', ''yy'', ''yr'']) cols
      in if \<not> truthy year_col
         then (Inl (ValueError ''Could not detect year column in climate data''), df_climate)
         else
           (let year_col = the year_col;
                possible_metrics = or_default metric_candidates
                  [''annual_mean_temp_c'', ''annual_temp'', ''annual_mean_temp'',
                   ''annual_rainfall_mm'', ''rainfall_mm'', ''mean_temp_c'', ''annual_mean_temp''];
                metric_col = detect_col possible_metrics cols;
                metric_col = (if \<not> truthy metric_col
                              then (case filter (\<lambda>c. c \<noteq> year_col) (numeric_columns df_climate) of
                                      c # cs \<Rightarrow> Some c
                                    | [] \<Rightarrow> None)
                              else metric_col)
            in case metric_col of
              None \<Rightarrow> (Inl (ValueError ''No numeric climate metric found''), df_climate)
            | Some metric_col \<Rightarrow>
                (let state_col = detect_col [''state'', ''region'', ''subdivision'', ''district''] cols in
                 case max_year_of (dropna (map (to_numeric P) (series df_climate year_col))) of
                   None \<Rightarrow> (Inl (ValueError ''cannot convert float NaN to integer''), df_climate)
                 | Some max_year \<Rightarrow>
                     (let min_year = max_year - last_n_years + 1;
                          df_climate = set_col df_climate year_col (\<lambda>r. to_numeric P (cell_at r year_col));
                          df_f = year_window (rows df_climate) year_col min_year max_year
                      in (case avg_out df_f state_col metric_col states of
                            Inl e \<Rightarrow> Inl e
                          | Inr out \<Rightarrow>
                              Inr (out, \<lparr>avg_years_used = (min_year, max_year),
                                         metric_column = metric_col,
                                         avg_year_column = year_col,
                                         state_column = state_col\<rparr>),
                          df_climate)))))"

subsection \<open>Top crops by volume\<close>

text \<open>
  \<^verbatim>\<open>top_crops_by_volume\<close>, in three parts: the columns (lines 65 to 94), the sums by
  crop of the rows of one state (lines 106 to 118, before the sort), and the function.
  It works on \<^verbatim>\<open>df_crop.copy()\<close>. \<^verbatim>\<open>if max_year:\<close> is false for \<^verbatim>\<open>None\<close> and for the year 0.
  \<^verbatim>\<open>groupby\<close> raises \<^verbatim>\<open>KeyError\<close> on a label the frame does not have.

  \<^verbatim>\<open>sort_values(prod_col, ascending=False)\<close> sorts with numpy's default kind, quicksort,
  which pandas documents as not stable. The order it gives to the grouped rows
  (crop, sum) is the parameter \<open>srt\<close>; what pandas promises of it is \<open>descending_sort\<close>
  below.
\<close>

definition crop_columns :: "dataframe \<Rightarrow> string \<times> string \<times> string \<times> string" where
  "crop_columns df =
     (let cols = columns df;
          year_col = detect_col [''year'', ''season'', ''reporting_year''] cols;
          prod_col = detect_col [''production_tonnes'', ''production'', ''production (tonnes)'',
                                 ''production (t)'', ''quantity''] cols;
          state_col = detect_col [''state'', ''st'', ''state_name''] cols;
          crop_col = detect_col [''crop'', ''commodity'', ''crop_name''] cols
      in (if truthy year_col then the year_col else ''year'',
          if truthy prod_col then the prod_col else ''production_tonnes'',
          if truthy state_col then the state_col else ''state'',
          if truthy crop_col then the crop_col else ''crop''))"

definition crop_totals ::
  "(string \<Rightarrow> rat option) \<Rightarrow> dataframe \<Rightarrow> string \<Rightarrow> string \<Rightarrow> string \<Rightarrow> string
     \<Rightarrow> py_error + (cell \<times> rat) list" where
  "crop_totals P df state state_col prod_col crop_col =
     (let dff = (if state_col \<in> set (columns df)
                 then df\<lparr>rows := filter (\<lambda>r. cell_eq (cell_at r state_col) (Str state)) (rows df)\<rparr>
                 else df);
          dff = (if prod_col \<in> set (columns dff)
                 then set_col dff prod_col (\<lambda>r. fillna0 (to_numeric P (cell_at r prod_col)))
                 else set_col dff prod_col (\<lambda>r. Num 0))
      in if crop_col \<notin> set (columns dff) then Inl (KeyError crop_col)
         else Inr (map (\<lambda>(k, g). (k, sum_list (dropna (map (\<lambda>r. cell_at r prod_col) g))))
                     (groupby (rows dff) crop_col)))"

definition top_crops_by_volume ::
  "(string \<Rightarrow> rat option) \<Rightarrow> ((cell \<times> rat) list \<Rightarrow> (cell \<times> rat) list) \<Rightarrow> dataframe \<Rightarrow> string \<Rightarrow> int \<Rightarrow> int
     \<Rightarrow> py_error + dataframe" where
  "top_crops_by_volume P srt df_crop state last_n_years top_m =
     (let df = df_crop;
          (year_col, prod_col, state_col, crop_col) = crop_columns df;
          (df, max_year) =
            (if year_col \<in> set (columns df)
             then (let df = set_col df year_col (\<lambda>r. to_numeric P (cell_at r year_col))
                   in (df, max_year_of (dropna (series df year_col))))
             else (df, None));
          df = (case max_year of
                  None \<Rightarrow> df
                | Some my \<Rightarrow>
                    if my \<noteq> 0
                    then (let min_year = my - last_n_years + 1
                          in df\<lparr>rows := year_window (rows df) year_col min_year my\<rparr>)
                    else df)
      in case crop_totals P df state state_col prod_col crop_col of
           Inl e \<Rightarrow> Inl e
         | Inr agg \<Rightarrow>
             Inr \<lparr>columns = [crop_col, prod_col],
                  rows = map (\<lambda>(k, v). [(crop_col, k), (prod_col, Num v)]) (head top_m (srt agg))\<rparr>)"

subsection \<open>Production trend\<close>

text \<open>
  \<^verbatim>\<open>np.linalg.lstsq(A, y)\<close> for the design matrix with rows \<open>(x, 1)\<close>: the exact
  least-squares solution \<open>(m, c)\<close>, the one of least norm when the matrix is rank
  deficient (all \<open>x\<close> equal).
\<close>

definition lstsq :: "rat list \<Rightarrow> rat list \<Rightarrow> rat \<times> rat" where
  "lstsq x y =
     (let n = of_nat (length x);
          sx = sum_list x;
          sy = sum_list y;
          sxx = sum_list (map (\<lambda>a. a * a) x);
          sxy = sum_list (map (\<lambda>(a, b). a * b) (zip x y));
          d = n * sxx - sx * sx
      in if d \<noteq> 0 then ((n * sxy - sx * sy) / d, (sxx * sy - sx * sxy) / d)
         else (sxy / (sxx + n), sy / (sxx + n)))"

record trend_meta =
  slope_per_year :: rat
  intercept :: rat

text \<open>
  \<^verbatim>\<open>production_trend\<close>, on \<^verbatim>\<open>df_crop.copy()\<close>, in three parts: the columns (lines 124 to
  146), the yearly sums (lines 147 to 159) and the function.

  Without a year column the function adds one filled with \<^verbatim>\<open>pd.NaT\<close>, a datetime
  column; \<^verbatim>\<open>pd.to_numeric\<close> later reads a datetime column as 64-bit integers, where
  \<^verbatim>\<open>NaT\<close> is \<open>- 2^63\<close>. Until then the cells are missing ones. The first component of
  \<open>trend_columns\<close> says that this column was added.

  \<^verbatim>\<open>df.get(prod_col, 0)\<close> is the number 0 when the frame has no such column, and
  \<^verbatim>\<open>pd.to_numeric(0).fillna(0)\<close> raises \<^verbatim>\<open>AttributeError\<close>. \<^verbatim>\<open>df[crop_col]\<close> and \<^verbatim>\<open>ts["year"]\<close>
  raise \<^verbatim>\<open>KeyError\<close> on a label the frame does not have.
\<close>

definition trend_columns :: "dataframe \<Rightarrow> bool \<times> string \<times> string \<times> string" where
  "trend_columns df =
     (let cols = columns df;
          year_col = detect_col [''year'', ''season''] cols;
          crop_col = detect_col [''crop'', ''commodity''] cols;
          prod_col = detect_col [''production_tonnes'', ''production''] cols
      in (\<not> truthy year_col,
          if \<not> truthy year_col then ''year'' else the year_col,
          if \<not> truthy crop_col then ''crop'' else the crop_col,
          if truthy prod_col then the prod_col else ''production_tonnes''))"

text \<open>
  The yearly sums: the label of the year column of \<^verbatim>\<open>ts\<close> and, in ascending order of the
  year, each year with the sum of the production of its rows.
\<close>

definition yearly_sums ::
  "(string \<Rightarrow> rat option) \<Rightarrow> (rat \<Rightarrow> string) \<Rightarrow> dataframe \<Rightarrow> string \<Rightarrow> (string \<times> cell) list option
     \<Rightarrow> py_error + string \<times> (cell \<times> rat) list" where
  "yearly_sums P R df_crop crop_name region_filter =
     (let (no_year, year_col, crop_col, prod_col) = trend_columns df_crop;
          df = (if no_year then set_col df_crop ''year'' (\<lambda>r. NaN) else df_crop)
      in if prod_col \<notin> set (columns df)
         then Inl (AttributeError ''int object has no attribute fillna'')
         else
           (let df = set_col df prod_col (\<lambda>r. fillna0 (to_numeric P (cell_at r prod_col)))
            in if crop_col \<notin> set (columns df) then Inl (KeyError crop_col)
               else
                 (let dff = df\<lparr>rows := filter (\<lambda>r. lower (cell_str R (cell_at r crop_col)) = lower crop_name)
                                          (rows df)\<rparr>;
                      dff = fold (\<lambda>(k, v) dff.
                                    if k \<in> set (columns dff)
                                    then dff\<lparr>rows := filter (\<lambda>r. cell_eq (cell_at r k) v) (rows dff)\<rparr>
                                    else dff)
                              (case region_filter of None \<Rightarrow> [] | Some kvs \<Rightarrow> kvs) dff
                  in if year_col \<in> set (columns dff)
                     then
                       (let dff = set_col dff year_col
                                    (\<lambda>r. if no_year then Num (- (2 ^ 63))
                                         else to_numeric P (cell_at r year_col))
                        in Inr (year_col,
                                map (\<lambda>(k, g). (k, sum_list (dropna (map (\<lambda>r. cell_at r prod_col) g))))
                                  (groupby (rows dff) year_col)))
                     else Inr (''year'', [(Num 0, sum_list (dropna (series dff prod_col)))]))))"

definition production_trend ::
  "(string \<Rightarrow> rat option) \<Rightarrow> (rat \<Rightarrow> string) \<Rightarrow> dataframe \<Rightarrow> string \<Rightarrow> (string \<times> cell) list option
     \<Rightarrow> py_error + dataframe \<times> trend_meta" where
  "production_trend P R df_crop crop_name region_filter =
     (let (no_year, year_col, crop_col, prod_col) = trend_columns df_crop in
      case yearly_sums P R df_crop crop_name region_filter of
        Inl e \<Rightarrow> Inl e
      | Inr (ts_year, totals) \<Rightarrow>
          (let ts = \<lparr>columns = [ts_year, prod_col],
                     rows = map (\<lambda>(k, v). [(ts_year, k), (prod_col, Num v)]) totals\<rparr>;
               renamed = \<lparr>columns = map (\<lambda>c. if c = prod_col then ''production_tonnes'' else c) (columns ts),
                          rows = map (map (\<lambda>(c, v). (if c = prod_col then ''production_tonnes'' else c, v)))
                                   (rows ts)\<rparr>
           in if 2 \<le> length (rows ts)
              then (if ''year'' \<notin> set (columns ts) then Inl (KeyError ''year'')
                    else (let (m, c) = lstsq (dropna (series ts ''year'')) (dropna (series ts prod_col))
                          in Inr (renamed, \<lparr>slope_per_year = m, intercept = c\<rparr>)))
              else Inr (renamed, \<lparr>slope_per_year = 0,
                                  intercept = sum_list (dropna (series ts prod_col))\<rparr>)))"

subsection \<open>Correlation of production with climate\<close>

record 'f corr_meta =
  pearson_corr :: "'f option"
  climate_metric :: "string option"

text \<open>
  \<^verbatim>\<open>pd.merge(ts_prod, cagg, left_on="year", right_on=year_col, how="inner")\<close>, for a left
  frame with a column \<^verbatim>\<open>"year"\<close>. Both sides hold one row per key. A label that both
  frames have gets the suffixes \<^verbatim>\<open>_x\<close> and \<^verbatim>\<open>_y\<close>, except the key when it has the same
  label on both sides.
\<close>

definition merge_on_year :: "dataframe \<Rightarrow> dataframe \<Rightarrow> string \<Rightarrow> dataframe" where
  "merge_on_year left right year_col =
     (let shared = (year_col = ''year'');
          overlap = filter (\<lambda>c. c \<in> set (columns right) \<and> \<not> (shared \<and> c = ''year'')) (columns left);
          lname = (\<lambda>c. if c \<in> set overlap then c @ ''_x'' else c);
          rname = (\<lambda>c. if c \<in> set overlap then c @ ''_y'' else c);
          rcols = filter (\<lambda>c. \<not> (shared \<and> c = ''year'')) (columns right)
      in \<lparr>columns = map lname (columns left) @ map rname rcols,
          rows = concat (map (\<lambda>l. map (\<lambda>r. map (\<lambda>c. (lname c, cell_at l c)) (columns left)
                                               @ map (\<lambda>c. (rname c, cell_at r c)) rcols)
                                      (filter (\<lambda>r. cell_eq (cell_at l ''year'') (cell_at r year_col)) (rows right)))
                             (rows left))\<rparr>)"

text \<open>
  The body of the \<^verbatim>\<open>try\<close> block of \<^verbatim>\<open>correlate_production_with_climate\<close>: an exception
  (\<open>Inl\<close>), the end of the block without a \<^verbatim>\<open>return\<close> (\<open>Inr None\<close>), or the returned pair.
  The frame read after the call of \<^verbatim>\<open>avg_annual_climate_metric\<close> is the caller's frame
  as that call left it. \<^verbatim>\<open>Series.corr\<close> is the parameter \<open>C\<close>.
\<close>

definition climate_join ::
  "(string \<Rightarrow> rat option) \<Rightarrow> (cell list \<Rightarrow> cell list \<Rightarrow> 'f) \<Rightarrow> dataframe \<Rightarrow> dataframe \<Rightarrow> string \<Rightarrow> int
     \<Rightarrow> py_error + (dataframe \<times> 'f corr_meta) option" where
  "climate_join P C ts_prod df_climate state last_n_years =
     (case avg_annual_climate_metric P df_climate [state] None None last_n_years of
        (Inl e, df_climate) \<Rightarrow> Inl e
      | (Inr (climate_out, meta), df_climate) \<Rightarrow>
          (let metric = metric_column meta;
               cols = columns df_climate;
               year_col = find (\<lambda>c. lower c = ''year'') cols;
               state_col = find (\<lambda>c. lower c = ''state'') cols
           in if truthy year_col \<and> truthy state_col \<and> metric \<in> set cols
              then
                (let yc = the year_col;
                     sc = the state_col;
                     groups = groupby (filter (\<lambda>r. cell_eq (cell_at r sc) (Str state)) (rows df_climate)) yc
                 in if metric = yc
                    then Inl (ValueError (''cannot insert '' @ yc @ '', already exists''))
                    else
                      (case collect (map (\<lambda>(k, g). series_mean (map (\<lambda>r. cell_at r metric) g)) groups) of
                         Inl e \<Rightarrow> Inl e
                       | Inr means \<Rightarrow>
                           (let cagg = \<lparr>columns = [yc, metric],
                                        rows = map (\<lambda>(k, v). [(yc, k), (metric, v)])
                                                 (zip (map fst groups) means)\<rparr>
                            in if ''year'' \<notin> set (columns ts_prod) then Inl (KeyError ''year'')
                               else
                                 (let merged = merge_on_year ts_prod cagg yc in
                                  if 2 \<le> length (rows merged)
                                  then (if ''production_tonnes'' \<notin> set (columns merged)
                                        then Inl (KeyError ''production_tonnes'')
                                        else if metric \<notin> set (columns merged) then Inl (KeyError metric)
                                        else Inr (Some (merged,
                                               \<lparr>pearson_corr = Some (C (series merged ''production_tonnes'')
                                                                        (series merged metric)),
                                                climate_metric = Some metric\<rparr>)))
                                  else Inr (Some (merged, \<lparr>pearson_corr = None,
                                                         climate_metric = Some metric\<rparr>))))))
              else Inr None))"

text \<open>
  \<^verbatim>\<open>correlate_production_with_climate\<close>. The call of \<^verbatim>\<open>production_trend\<close> stands before
  the \<^verbatim>\<open>try\<close>: its exception leaves the function. \<^verbatim>\<open>except Exception: pass\<close> sends every
  exception of the block to the last line.
\<close>

definition correlate_production_with_climate ::
  "(string \<Rightarrow> rat option) \<Rightarrow> (rat \<Rightarrow> string) \<Rightarrow> (cell list \<Rightarrow> cell list \<Rightarrow> 'f) \<Rightarrow> dataframe \<Rightarrow> dataframe
     \<Rightarrow> string \<Rightarrow> string \<Rightarrow> int \<Rightarrow> py_error + dataframe \<times> 'f corr_meta" where
  "correlate_production_with_climate P R C df_prod df_climate crop_name state last_n_years =
     (case production_trend P R df_prod crop_name (Some [(''state'', Str state)]) of
        Inl e \<Rightarrow> Inl e
      | Inr (ts_prod, trend) \<Rightarrow>
          (case climate_join P C ts_prod df_climate state last_n_years of
             Inr (Some res) \<Rightarrow> Inr res
           | Inr None \<Rightarrow> Inr (\<lparr>columns = [], rows = []\<rparr>, \<lparr>pearson_corr = None, climate_metric = None\<rparr>)
           | Inl e \<Rightarrow> Inr (\<lparr>columns = [], rows = []\<rparr>, \<lparr>pearson_corr = None, climate_metric = None\<rparr>)))"

section \<open>loaders.py\<close>

record source_meta =
  source_file :: string
  full_path :: "string option"

text \<open>
  \<^verbatim>\<open>_find_file_contains\<close>, on the listing \<^verbatim>\<open>os.listdir(DATA_DIR)\<close>: the path of the first
  file whose lower-cased name contains the lower-cased piece.
\<close>

definition find_file_contains :: "string \<Rightarrow> string list \<Rightarrow> string \<Rightarrow> string option" where
  "find_file_contains data_dir listing substr =
     (case find (\<lambda>fname. is_substr (lower substr) (lower fname)) listing of
        Some fname \<Rightarrow> Some (data_dir @ ''/'' @ fname)
      | None \<Rightarrow> None)"

text \<open>
  The three loaders. What each does with a file it found (reading and reshaping it) is
  the parameter \<open>loaded\<close>, a function of the path.
\<close>

definition load_crop_production ::
  "string \<Rightarrow> string list \<Rightarrow> (string \<Rightarrow> dataframe \<times> source_meta) \<Rightarrow> dataframe \<times> source_meta" where
  "load_crop_production data_dir listing loaded =
     (let path = find_file_contains data_dir listing ''crop-wise details of production'' in
      if \<not> truthy path
      then (\<lparr>columns = [''year'', ''state'', ''district'', ''crop'', ''production_tonnes''],
             rows = [[(''year'', Num 2019), (''state'', Str ''StateA''), (''district'', Str ''D1''), (''crop'', Str ''Wheat''), (''production_tonnes'', Num 1300)],
                     [(''year'', Num 2019), (''state'', Str ''StateB''), (''district'', Str ''D2''), (''crop'', Str ''Rice''), (''production_tonnes'', Num 2000)]]\<rparr>,
            \<lparr>source_file = ''sample_crop_production'', full_path = None\<rparr>)
      else loaded (the path))"

definition load_climate_temp_series ::
  "string \<Rightarrow> string list \<Rightarrow> (string \<Rightarrow> dataframe \<times> source_meta) \<Rightarrow> dataframe \<times> source_meta" where
  "load_climate_temp_series data_dir listing loaded =
     (let first_path = find_file_contains data_dir listing ''seasonal and annual minmax'';
          path = (if truthy first_path then first_path
                  else find_file_contains data_dir listing ''year-wise climate risk'')
      in if \<not> truthy path
         then (\<lparr>columns = [''year'', ''annual_mean_temp_c''],
                rows = [[(''year'', Num 2018), (''annual_mean_temp_c'', Num (265 / 10))],
                        [(''year'', Num 2019), (''annual_mean_temp_c'', Num (268 / 10))]]\<rparr>,
               \<lparr>source_file = ''sample_climate'', full_path = None\<rparr>)
         else loaded (the path))"

definition load_yield_all_india ::
  "string \<Rightarrow> string list \<Rightarrow> (string \<Rightarrow> dataframe \<times> source_meta) \<Rightarrow> dataframe \<times> source_meta" where
  "load_yield_all_india data_dir listing loaded =
     (let path = find_file_contains data_dir listing ''all india level yield'' in
      if \<not> truthy path
      then (\<lparr>columns = [], rows = []\<rparr>, \<lparr>source_file = ''sample_yield'', full_path = None\<rparr>)
      else loaded (the path))"

section \<open>Example tables\<close>

text \<open>Tables on which the statements below are evaluated.\<close>

definition unlabelled_table :: dataframe where
  "unlabelled_table = \<lparr>columns = [''a'', ''b''], rows = [[(''a'', Str ''x''), (''b'', Num 1)]]\<rparr>"

definition sample_crop :: dataframe where
  "sample_crop =
     \<lparr>columns = [''year'', ''state'', ''district'', ''crop'', ''production_tonnes''],
      rows = [[(''year'', Num 2019), (''state'', Str ''StateA''), (''district'', Str ''D1''),
               (''crop'', Str ''Wheat''), (''production_tonnes'', Num 1300)],
              [(''year'', Num 2019), (''state'', Str ''StateB''), (''district'', Str ''D2''),
               (''crop'', Str ''Rice''), (''production_tonnes'', Num 2000)]]\<rparr>"

definition crop_no_production :: dataframe where
  "crop_no_production =
     \<lparr>columns = [''year'', ''state'', ''crop''],
      rows = [[(''year'', Num 2019), (''state'', Str ''StateA''), (''crop'', Str ''Wheat'')]]\<rparr>"

definition climate_text_year :: dataframe where
  "climate_text_year =
     \<lparr>columns = [''year'', ''annual_mean_temp_c''],
      rows = [[(''year'', Num 2018), (''annual_mean_temp_c'', Num (265 / 10))],
              [(''year'', Num 2019), (''annual_mean_temp_c'', Num (268 / 10))],
              [(''year'', Str ''unknown''), (''annual_mean_temp_c'', Num 27)]]\<rparr>"





definition crop_two_years :: dataframe where
  "crop_two_years =
     \<lparr>columns = [''year'', ''state'', ''crop'', ''production_tonnes''],
      rows = [[(''year'', Num 2018), (''state'', Str ''StateA''), (''crop'', Str ''Wheat''),
               (''production_tonnes'', Num 100)],
              [(''year'', Num 2019), (''state'', Str ''StateA''), (''crop'', Str ''Wheat''),
               (''production_tonnes'', Num 120)]]\<rparr>"



definition climate_blank :: dataframe where
  "climate_blank =
     \<lparr>columns = [''Year'', '' ''],
      rows = [[(''Year'', Num 2018), ('' '', Num 25)],
              [(''Year'', Num 2019), ('' '', Num 26)],
              [(''Year'', Num 2020), ('' '', Num 27)]]\<rparr>"

definition crop_capital_year :: dataframe where
  "crop_capital_year =
     \<lparr>columns = [''Year'', ''crop'', ''production_tonnes''],
      rows = [[(''Year'', Num 2018), (''crop'', Str ''Wheat''), (''production_tonnes'', Num 100)],
              [(''Year'', Num 2019), (''crop'', Str ''Wheat''), (''production_tonnes'', Num 120)]]\<rparr>"

definition crop_year_zero :: dataframe where
  "crop_year_zero =
     \<lparr>columns = [''year'', ''state'', ''crop'', ''production_tonnes''],
      rows = [[(''year'', Num 0), (''state'', Str ''StateA''), (''crop'', Str ''Wheat''),
               (''production_tonnes'', Num 10)],
              [(''year'', Num (- 5)), (''state'', Str ''StateA''), (''crop'', Str ''Rice''),
               (''production_tonnes'', Num 20)],
              [(''year'', NaN), (''state'', Str ''StateA''), (''crop'', Str ''Maize''),
               (''production_tonnes'', Num 30)]]\<rparr>"

section \<open>Notions used in the statements\<close>


text \<open>
  A string in which whitespace occurs only as single blanks between other characters or
  at the two ends.
\<close>

fun single_spaced :: "string \<Rightarrow> bool" where
  "single_spaced [] = True"
| "single_spaced [c] = (is_space c \<longrightarrow> c = CHR '' '')"
| "single_spaced (c # d # cs) =
     ((is_space c \<longrightarrow> c = CHR '' '' \<and> \<not> is_space d) \<and> single_spaced (d # cs))"

text \<open>
  What pandas documents of \<^verbatim>\<open>sort_values(ascending=False)\<close> on the grouped rows: the
  same rows, by descending sum. A stable sort also keeps rows of equal sum in the order
  they came in.
\<close>

definition descending_sort :: "((cell \<times> rat) list \<Rightarrow> (cell \<times> rat) list) \<Rightarrow> bool" where
  "descending_sort srt =
     (\<forall>xs. mset (srt xs) = mset xs \<and> sorted_wrt (\<lambda>a b. snd b \<le> snd a) (srt xs))"

definition stable_sort :: "((cell \<times> rat) list \<Rightarrow> (cell \<times> rat) list) \<Rightarrow> bool" where
  "stable_sort srt = (\<forall>xs v. filter (\<lambda>p. snd p = v) (srt xs) = filter (\<lambda>p. snd p = v) xs)"

text \<open>
  The points of the series \<^verbatim>\<open>ts\<close> that \<^verbatim>\<open>production_trend\<close> returns: the numbers of its first
  column (the year) with those of the column \<^verbatim>\<open>production_tonnes\<close>.
\<close>

definition ts_points :: "dataframe \<Rightarrow> (rat \<times> rat) list" where
  "ts_points ts =
     zip (dropna (series ts (hd (columns ts)))) (dropna (series ts ''production_tonnes''))"

text \<open>The sum of squared residuals of the line \<open>y = m * x + c\<close> on a list of points.\<close>

definition sse :: "(rat \<times> rat) list \<Rightarrow> rat \<Rightarrow> rat \<Rightarrow> rat" where
  "sse pts m c = sum_list (map (\<lambda>(x, y). (y - (m * x + c))\<^sup>2) pts)"











section \<open>The column-name normal form\<close>

lemma of_char_lower_char:
  "(of_char (lower_char c) :: nat) = (let n = of_char c in if 65 \<le> n \<and> n \<le> 90 then n + 32 else n)"
  by (simp add: lower_char_def Let_def)

lemma is_space_lower_char [simp]: "is_space (lower_char c) = is_space c"
  unfolding is_space_def of_char_lower_char by (auto simp: Let_def)

lemma lower_char_idem [simp]: "lower_char (lower_char c) = lower_char c"
proof -
  have "(of_char (lower_char (lower_char c)) :: nat) = of_char (lower_char c)"
    unfolding of_char_lower_char by (auto simp: Let_def)
  then show ?thesis by (metis inj_of_char [where ?'a = nat] injD)
qed

lemma lower_char_space [simp]: "lower_char (CHR '' '') = CHR '' ''"
  by (simp add: lower_char_def)

lemma space_is_space [simp]: "is_space (CHR '' '')"
  by (simp add: is_space_def)

lemma is_punct_code: "is_punct c = ((of_char c :: nat) \<in> {45, 95, 47, 92, 40, 41, 44})"
proof -
  have "is_punct c = (of_char c \<in> (of_char ` set [CHR ''-'', CHR ''_'', CHR ''/'', CHR 0x5C, CHR ''('', CHR '')'', CHR '',''] :: nat set))"
    unfolding is_punct_def using inj_of_char [where ?'a = nat]
    by (simp add: inj_image_mem_iff del: set_simps)
  then show ?thesis by auto
qed

lemma is_punct_lower_char [simp]: "is_punct (lower_char c) = is_punct c"
  unfolding is_punct_code of_char_lower_char by (auto simp: Let_def)

lemma is_space_not_punct: "is_space c \<Longrightarrow> \<not> is_punct c"
  unfolding is_punct_code is_space_def by (auto simp: Let_def)

lemma sub_runs_free: "\<forall>c \<in> set s. \<not> P c \<Longrightarrow> sub_runs P s = s"
  by (induction s) auto

lemma set_sub_runs: "set (sub_runs P s) \<subseteq> {c \<in> set s. \<not> P c} \<union> {CHR '' ''}"
proof (induction P s rule: sub_runs.induct)
  case (1 P)
  then show ?case by simp
next
  case (2 P c cs)
  show ?case
  proof (cases "P c")
    case True
    have "set (dropWhile P cs) \<subseteq> set cs" by (auto dest: set_dropWhileD)
    with 2(1) [OF True] True show ?thesis by auto
  next
    case False
    with 2(2) show ?thesis by auto
  qed
qed

lemma single_spaced_sub_runs: "single_spaced (sub_runs is_space s)"
proof (induction is_space s rule: sub_runs.induct)
  case 1
  then show ?case by simp
next
  case (2 c cs)
  show ?case
  proof (cases "is_space c")
    case True
    from 2(1) [OF True] have ih: "single_spaced (sub_runs is_space (dropWhile is_space cs))" .
    show ?thesis
    proof (cases "dropWhile is_space cs")
      case Nil
      with True have "sub_runs is_space (c # cs) = [CHR '' '']"
        by (simp del: dropWhile_eq_Nil_conv)
      then show ?thesis by simp
    next
      case (Cons d ds)
      then have "\<not> is_space d" by (metis hd_dropWhile list.sel(1) list.distinct(1))
      with ih Cons True show ?thesis by simp
    qed
  next
    case False
    from 2(2) [OF False] have ih: "single_spaced (sub_runs is_space cs)" .
    with False show ?thesis by (cases "sub_runs is_space cs") auto
  qed
qed

lemma sub_runs_single_spaced: "single_spaced s \<Longrightarrow> sub_runs is_space s = s"
proof (induction s rule: single_spaced.induct)
  case 1
  then show ?case by simp
next
  case (2 c)
  then show ?case by simp
next
  case (3 c d cs)
  then show ?case by auto
qed

lemma single_spaced_map_lower: "single_spaced s \<Longrightarrow> single_spaced (map lower_char s)"
proof (induction s rule: single_spaced.induct)
  case 1
  then show ?case by simp
next
  case (2 c)
  then show ?case by auto
next
  case (3 c d cs)
  then show ?case by auto
qed

lemma single_spaced_append_left: "single_spaced (xs @ ys) \<Longrightarrow> single_spaced xs"
proof (induction xs rule: single_spaced.induct)
  case 1
  then show ?case by simp
next
  case (2 c)
  then show ?case by (cases ys) auto
next
  case (3 c d cs)
  then show ?case by auto
qed

lemma single_spaced_append_right: "single_spaced (xs @ ys) \<Longrightarrow> single_spaced ys"
proof (induction xs)
  case Nil
  then show ?case by simp
next
  case (Cons x xs)
  then show ?case by (cases "xs @ ys") auto
qed

lemma strip_decomp: "\<exists>pre post. s = pre @ strip s @ post"
proof -
  let ?t = "dropWhile is_space s"
  have a: "s = takeWhile is_space s @ ?t" by simp
  have "rev ?t = takeWhile is_space (rev ?t) @ dropWhile is_space (rev ?t)" by simp
  then have "?t = rev (dropWhile is_space (rev ?t)) @ rev (takeWhile is_space (rev ?t))"
    by (metis rev_append rev_rev_ident)
  then have "s = takeWhile is_space s @ strip s @ rev (takeWhile is_space (rev ?t))"
    using a by (simp add: strip_def)
  then show ?thesis by blast
qed

lemma single_spaced_strip: "single_spaced s \<Longrightarrow> single_spaced (strip s)"
  by (metis strip_decomp single_spaced_append_left single_spaced_append_right)

lemma set_strip: "set (strip s) \<subseteq> set s"
  by (metis strip_decomp Un_upper1 Un_upper2 set_append subset_trans)

lemma norm_str_no_punct: "c \<in> set (norm_str s) \<Longrightarrow> \<not> is_punct c"
proof -
  assume "c \<in> set (norm_str s)"
  then obtain d where d: "d \<in> set (sub_runs is_space (sub_runs is_punct (strip s)))"
    and c: "c = lower_char d"
    by (auto simp: norm_str_def lower_def)
  from d set_sub_runs [of is_space] have "d \<in> set (sub_runs is_punct (strip s)) \<or> d = CHR '' ''"
    by blast
  with set_sub_runs [of is_punct "strip s"] have "\<not> is_punct d \<or> d = CHR '' ''" by blast
  then have "\<not> is_punct d" using is_space_not_punct [of "CHR '' ''"] by auto
  with c show ?thesis by simp
qed

lemma norm_str_single_spaced: "single_spaced (norm_str s)"
  by (simp add: norm_str_def lower_def single_spaced_map_lower single_spaced_sub_runs)

lemma lower_strip_norm_str: "lower (strip (norm_str s)) = strip (norm_str s)"
proof -
  have "\<forall>c \<in> set (strip (norm_str s)). lower_char c = c"
    using set_strip [of "norm_str s"] by (auto simp: norm_str_def lower_def)
  then show ?thesis by (simp add: lower_def map_idI)
qed

text \<open>
  Claim C4, as the code has it. The claim states that the normal form is idempotent.
  The code strips the label before it replaces punctuation, so a label that begins or
  ends with one of the punctuation characters keeps a blank at that end, and a second
  pass strips it. What holds for every label: normalising a normal form strips it,
  \<open>norm (norm x) = strip (norm x)\<close>, and changes nothing else.
\<close>

theorem norm_str_twice: "norm_str (norm_str s) = strip (norm_str s)"
proof -
  let ?y = "strip (norm_str s)"
  have "\<forall>c \<in> set ?y. \<not> is_punct c" using set_strip [of "norm_str s"] norm_str_no_punct by blast
  then have 1: "sub_runs is_punct ?y = ?y" by (rule sub_runs_free)
  have 2: "sub_runs is_space ?y = ?y"
    by (simp add: sub_runs_single_spaced single_spaced_strip norm_str_single_spaced)
  show ?thesis unfolding norm_str_def [of "norm_str s"] by (simp add: 1 2 lower_strip_norm_str)
qed

text \<open>
  The label \<^verbatim>\<open>Production (Tonnes)\<close> normalises to \<^verbatim>\<open>production tonnes\<close> with a blank at the
  end, and that string normalises to the one without it.
\<close>

theorem norm_str_not_idempotent:
  "norm_str (norm_str ''Production (Tonnes)'') \<noteq> norm_str ''Production (Tonnes)''"
  by code_simp

section \<open>Notes on every path without a result\<close>

lemma window_result_none:
  "window_result md dfw yc mn mx N = (None, m) \<Longrightarrow> \<exists>d. m = Debug d \<and> detection_notes d \<noteq> []"
  unfolding window_result_def Let_def
  by (auto simp: add_note_def split: option.splits if_splits)

text \<open>
  Claim C10. Whenever \<^verbatim>\<open>_compute_national_climate_avg\<close> returns \<^verbatim>\<open>None\<close> for the table, for
  any input and any window, what it returns beside it is the dictionary \<^verbatim>\<open>meta_debug\<close>
  and its list \<^verbatim>\<open>detection_notes\<close> is not empty: every such path appends a note before
  it returns.
\<close>

theorem national_none_has_note:
  "compute_national_climate_avg P df N = Inr (None, m) \<Longrightarrow>
     \<exists>d. m = Debug d \<and> detection_notes d \<noteq> []"
  unfolding compute_national_climate_avg_def Let_def
  by (auto simp: add_note_def dest: window_result_none
      split: loader_result.splits option.splits sum.splits prod.splits if_splits)

text \<open>A frame without any year-like column: no table, and one note.\<close>

theorem national_none_has_note_witness:
  "compute_national_climate_avg (\<lambda>s. None) (Frame unlabelled_table) 5
     = Inr (None, Debug \<lparr>columns_sample = Some [''a'', ''b''],
                          rows_sample = Some [[(''a'', Str ''x''), (''b'', Num 1)]],
                          detection_notes = [''No year-like column found''],
                          available_years_sample = None\<rparr>)
   \<and> (\<exists>d. Debug \<lparr>columns_sample = Some [''a'', ''b''],
                   rows_sample = Some [[(''a'', Str ''x''), (''b'', Num 1)]],
                   detection_notes = [''No year-like column found''],
                   available_years_sample = None\<rparr> = Debug d
          \<and> detection_notes d \<noteq> [])"
proof -
  have e: "compute_national_climate_avg (\<lambda>s. None) (Frame unlabelled_table) 5
     = Inr (None, Debug \<lparr>columns_sample = Some [''a'', ''b''],
                          rows_sample = Some [[(''a'', Str ''x''), (''b'', Num 1)]],
                          detection_notes = [''No year-like column found''],
                          available_years_sample = None\<rparr>)"
    by code_simp
  from national_none_has_note [OF e] e show ?thesis by blast
qed

section \<open>The numeric fallback for the annual minimum and maximum\<close>































text \<open>
  The table whose only numeric column has the label of one blank: the fallback returns
  the empty normalised label, which counts as no column, and detection fails.
\<close>

lemma fallback_blank_label:
  "fallback_numeric_pair (\<lambda>s. None) (fst (normalize_columns climate_blank)) = (Some [], None)
   \<and> map_sum id (\<lambda>(out, m). (out, case m of Debug d \<Rightarrow> detection_notes d | Meta c \<Rightarrow> []))
        (compute_national_climate_avg (\<lambda>s. None) (Frame climate_blank) 2)
     = Inr (None, [note_trying_fallback, ''No candidate min/max columns found even after fallback''])"
  by code_simp

section \<open>Tables without a year column\<close>

lemma find_SomeD: "find Q xs = Some x \<Longrightarrow> x \<in> set xs \<and> Q x"
  by (induction xs) (auto split: if_splits)

lemma detect_col_None:
  "detect_col cands cols = None \<longleftrightarrow> (\<forall>c \<in> set cols. lower c \<notin> set cands)"
  by (induction cands) (auto simp: find_None_iff split: option.splits dest: find_SomeD)

lemma avg_raises_without_year:
  assumes "\<forall>c \<in> set (columns df). lower c \<notin> set (or_default ycands [''year'', ''yy'', ''yr''])"
  shows "avg_annual_climate_metric P df states ycands mcands N
           = (Inl (ValueError ''Could not detect year column in climate data''), df)"
proof -
  from assms have "detect_col (or_default ycands [''year'', ''yy'', ''yr'']) (columns df) = None"
    by (simp only: detect_col_None)
  then show ?thesis by (simp add: avg_annual_climate_metric_def truthy_def)
qed

lemma correlate_climate_failure:
  assumes "production_trend P R df_prod crop (Some [(''state'', Str state)]) = Inr t"
    and "fst (avg_annual_climate_metric P df [state] None None N) = Inl e"
  shows "correlate_production_with_climate P R C df_prod df crop state N
           = Inr (\<lparr>columns = [], rows = []\<rparr>, \<lparr>pearson_corr = None, climate_metric = None\<rparr>)"
proof -
  from assms(2) have "climate_join P C (fst t) df state N = Inl e"
    by (cases "avg_annual_climate_metric P df [state] None None N") (simp add: climate_join_def)
  with assms(1) show ?thesis
    by (cases t) (simp add: correlate_production_with_climate_def)
qed

text \<open>
  Claim C1, as the code has it. The claim states that every aggregation returns an
  empty or null result with a note on a table that has none of the columns. The average
  of a climate metric does not: on a table without a year column it raises \<^verbatim>\<open>ValueError\<close>
  with the message \<^verbatim>\<open>Could not detect year column in climate data\<close>, and leaves the table
  as it was. Its caller handles the exception: the correlation, once its production
  series is computed, returns the empty table and a null coefficient.
\<close>

theorem avg_metric_without_year:
  assumes "\<forall>c \<in> set (columns df). lower c \<notin> {''year'', ''yy'', ''yr''}"
  shows "avg_annual_climate_metric P df states None mcands N
           = (Inl (ValueError ''Could not detect year column in climate data''), df)
     \<and> (\<forall>t. production_trend P R df_prod crop (Some [(''state'', Str state)]) = Inr t \<longrightarrow>
           correlate_production_with_climate P R C df_prod df crop state N
             = Inr (\<lparr>columns = [], rows = []\<rparr>, \<lparr>pearson_corr = None, climate_metric = None\<rparr>))"
proof -
  from assms have a: "\<forall>c \<in> set (columns df). lower c \<notin> set (or_default None [''year'', ''yy'', ''yr''])"
    by simp
  have 1: "\<And>st mc. avg_annual_climate_metric P df st None mc N
           = (Inl (ValueError ''Could not detect year column in climate data''), df)"
    by (rule avg_raises_without_year [OF a])
  show ?thesis
  proof (intro conjI allI impI)
    show "avg_annual_climate_metric P df states None mcands N
           = (Inl (ValueError ''Could not detect year column in climate data''), df)" by (rule 1)
  next
    fix t assume t: "production_trend P R df_prod crop (Some [(''state'', Str state)]) = Inr t"
    show "correlate_production_with_climate P R C df_prod df crop state N
             = Inr (\<lparr>columns = [], rows = []\<rparr>, \<lparr>pearson_corr = None, climate_metric = None\<rparr>)"
      by (rule correlate_climate_failure [OF t]) (simp add: 1)
  qed
qed

text \<open>
  The theorem on a climate table with the columns \<open>a\<close> and \<open>b\<close>, and the built-in
  sample of crop production.
\<close>

theorem avg_metric_without_year_witness:
  "avg_annual_climate_metric (\<lambda>s. None) unlabelled_table [''StateA''] None None 3
           = (Inl (ValueError ''Could not detect year column in climate data''), unlabelled_table)
     \<and> correlate_production_with_climate (\<lambda>s. None) (\<lambda>x. []) (\<lambda>xs ys. ()) sample_crop
           unlabelled_table ''Wheat'' ''StateA'' 3
             = Inr (\<lparr>columns = [], rows = []\<rparr>, \<lparr>pearson_corr = None, climate_metric = None\<rparr>)"
proof -
  have h: "\<forall>c \<in> set (columns unlabelled_table). lower c \<notin> {''year'', ''yy'', ''yr''}"
    by code_simp
  have t: "production_trend (\<lambda>s. None) (\<lambda>x. []) sample_crop ''Wheat'' (Some [(''state'', Str ''StateA'')])
     = Inr (\<lparr>columns = [''year'', ''production_tonnes''],
              rows = [[(''year'', Num 2019), (''production_tonnes'', Num 1300)]]\<rparr>,
            \<lparr>slope_per_year = 0, intercept = 1300\<rparr>)"
    by code_simp
  from avg_metric_without_year [OF h, of "\<lambda>s. None" "[''StateA'']" None 3 "\<lambda>x. []" sample_crop
      "''Wheat''" "''StateA''" "\<lambda>xs ys. ()"] t
  show ?thesis by blast
qed

text \<open>
  The claim fails on that table: what the average of a climate metric gives back is an
  exception, not a result.
\<close>

theorem avg_metric_raises:
  "fst (avg_annual_climate_metric (\<lambda>s. None) unlabelled_table [''StateA''] None None 3)
     = Inl (ValueError ''Could not detect year column in climate data'')"
  by code_simp

section \<open>A failure of the production series\<close>

text \<open>
  Claim C7, at an input where the code breaks it. The crop table has a year, a state and
  a crop column and no production column. \<^verbatim>\<open>production_trend\<close> raises \<^verbatim>\<open>AttributeError\<close> on
  it, and \<^verbatim>\<open>correlate_production_with_climate\<close>, which calls it before its \<^verbatim>\<open>try\<close> block,
  passes the exception on to its caller, whatever the climate table is.
\<close>

theorem correlate_production_failure:
  "correlate_production_with_climate P R C crop_no_production df_climate ''Wheat'' ''StateA'' 3
     = Inl (AttributeError ''int object has no attribute fillna'')"
proof -
  have "production_trend P R crop_no_production ''Wheat'' (Some [(''state'', Str ''StateA'')])
     = Inl (AttributeError ''int object has no attribute fillna'')"
    unfolding production_trend_def yearly_sums_def trend_columns_def crop_no_production_def
    by (simp add: Let_def truthy_def lower_def lower_char_def)
  then show ?thesis by (simp add: correlate_production_with_climate_def)
qed

section \<open>The loaders without a file\<close>

text \<open>
  Claim C6, at the input where the code breaks it. When no file name contains the piece a
  loader looks for, the loaders of crop production and of the climate series return
  their built-in samples of two rows, and the loader of the all-India yield returns a
  frame without rows and without columns, under the name \<^verbatim>\<open>sample_yield\<close>.
\<close>

theorem loaders_without_file:
  "(find_file_contains data_dir listing ''crop-wise details of production'' = None \<longrightarrow>
      length (rows (fst (load_crop_production data_dir listing loaded))) = 2
      \<and> snd (load_crop_production data_dir listing loaded)
          = \<lparr>source_file = ''sample_crop_production'', full_path = None\<rparr>)
   \<and> (find_file_contains data_dir listing ''seasonal and annual minmax'' = None
      \<and> find_file_contains data_dir listing ''year-wise climate risk'' = None \<longrightarrow>
      length (rows (fst (load_climate_temp_series data_dir listing loaded))) = 2
      \<and> snd (load_climate_temp_series data_dir listing loaded)
          = \<lparr>source_file = ''sample_climate'', full_path = None\<rparr>)
   \<and> (find_file_contains data_dir listing ''all india level yield'' = None \<longrightarrow>
      load_yield_all_india data_dir listing loaded
        = (\<lparr>columns = [], rows = []\<rparr>, \<lparr>source_file = ''sample_yield'', full_path = None\<rparr>))"
  by (simp add: load_crop_production_def load_climate_temp_series_def load_yield_all_india_def
      truthy_def)

text \<open>
  A data directory that holds one other file. What the loaders would do with a file they
  found plays no part.
\<close>

theorem loaders_without_file_witness:
  "length (rows (fst (load_crop_production ''data'' [''readme.txt'']
        (\<lambda>p. (sample_crop, \<lparr>source_file = p, full_path = Some p\<rparr>))))) = 2
   \<and> length (rows (fst (load_climate_temp_series ''data'' [''readme.txt'']
        (\<lambda>p. (sample_crop, \<lparr>source_file = p, full_path = Some p\<rparr>))))) = 2
   \<and> load_yield_all_india ''data'' [''readme.txt'']
        (\<lambda>p. (sample_crop, \<lparr>source_file = p, full_path = Some p\<rparr>))
        = (\<lparr>columns = [], rows = []\<rparr>, \<lparr>source_file = ''sample_yield'', full_path = None\<rparr>)"
proof -
  have h: "find_file_contains ''data'' [''readme.txt''] ''crop-wise details of production'' = None
     \<and> find_file_contains ''data'' [''readme.txt''] ''seasonal and annual minmax'' = None
     \<and> find_file_contains ''data'' [''readme.txt''] ''year-wise climate risk'' = None
     \<and> find_file_contains ''data'' [''readme.txt''] ''all india level yield'' = None"
    by code_simp
  with loaders_without_file [of "''data''" "[''readme.txt'']"
      "(\<lambda>p. (sample_crop, \<lparr>source_file = p, full_path = Some p\<rparr>))"] show ?thesis
    by (elim conjE) (intro conjI, simp_all only: simp_thms)
qed

section \<open>The caller's table after the average\<close>

text \<open>
  Claim C9, at an input where the code breaks it. The year column of the table holds
  2018, 2019 and the text \<^verbatim>\<open>unknown\<close>. \<^verbatim>\<open>avg_annual_climate_metric\<close> returns its result, and
  the table the caller passed now has a missing cell where the text was.
\<close>

theorem avg_metric_changes_table:
  "avg_annual_climate_metric (\<lambda>s. None) climate_text_year [''StateA''] None None 3
     = (Inr (\<lparr>columns = [''avg_annual_mean_temp_c''],
               rows = [[(''avg_annual_mean_temp_c'', Num (533 / 20))]]\<rparr>,
             \<lparr>avg_years_used = (2017, 2019), metric_column = ''annual_mean_temp_c'',
              avg_year_column = ''year'', state_column = None\<rparr>),
        \<lparr>columns = [''year'', ''annual_mean_temp_c''],
         rows = [[(''year'', Num 2018), (''annual_mean_temp_c'', Num (265 / 10))],
                 [(''year'', Num 2019), (''annual_mean_temp_c'', Num (268 / 10))],
                 [(''year'', NaN), (''annual_mean_temp_c'', Num 27)]]\<rparr>)
   \<and> snd (avg_annual_climate_metric (\<lambda>s. None) climate_text_year [''StateA''] None None 3)
     \<noteq> climate_text_year"
  by code_simp

section \<open>The trailing window\<close>






lemma cell_at_update: "cell_at (AList.update c v r) c' = (if c' = c then v else cell_at r c')"
  by (simp add: cell_at_def update_conv')










text \<open>
  The crop table with the years 0, -5 and a missing one, with a window of one year: all
  three rows are summed.
\<close>

lemma top_crops_year_zero:
  "top_crops_by_volume (\<lambda>s. None) (sort_key (\<lambda>p. - snd p)) crop_year_zero ''StateA'' 1 3
     = Inr \<lparr>columns = [''crop'', ''production_tonnes''],
            rows = [[(''crop'', Str ''Maize''), (''production_tonnes'', Num 30)],
                    [(''crop'', Str ''Rice''), (''production_tonnes'', Num 20)],
                    [(''crop'', Str ''Wheat''), (''production_tonnes'', Num 10)]]\<rparr>"
  by code_simp

section \<open>The production trend\<close>

text \<open>
  The closed form of \<open>lstsq\<close> minimises the sum of squared residuals when the \<open>x\<close> are
  distinct and there are two of them or more.
\<close>

lemma sse_expand:
  "sse pts m c =
     sum_list (map (\<lambda>(x, y). y * y) pts) - 2 * m * sum_list (map (\<lambda>(x, y). x * y) pts)
     - 2 * c * sum_list (map snd pts) + m * m * sum_list (map (\<lambda>(x, y). x * x) pts)
     + 2 * m * c * sum_list (map fst pts) + of_nat (length pts) * (c * c)"
  unfolding sse_def
  by (induction pts) (auto simp: algebra_simps power2_eq_square)

lemma sum_sq_dev:
  "of_nat (length xs) * sum_list (map (\<lambda>x. (x - a) * (x - a)) xs) =
     of_nat (length xs) * sum_list (map (\<lambda>x. x * x) xs)
     - 2 * a * of_nat (length xs) * sum_list xs + of_nat (length xs) * of_nat (length xs) * (a * a)"
  for a :: rat
proof -
  have e: "sum_list (map (\<lambda>x. (x - a) * (x - a)) xs) =
     sum_list (map (\<lambda>x. x * x) xs) - 2 * a * sum_list xs + of_nat (length xs) * (a * a)"
    by (induction xs) (auto simp: algebra_simps)
  show ?thesis unfolding e by (simp add: algebra_simps)
qed

lemma det_pos:
  fixes xs :: "rat list"
  assumes "distinct xs" and "2 \<le> length xs"
  shows "of_nat (length xs) * sum_list (map (\<lambda>x. x * x) xs) - sum_list xs * sum_list xs \<noteq> 0"
proof
  let ?n = "of_nat (length xs) :: rat"
  let ?a = "sum_list xs / ?n"
  assume z: "?n * sum_list (map (\<lambda>x. x * x) xs) - sum_list xs * sum_list xs = 0"
  have n0: "?n \<noteq> 0" using assms(2) by auto
  have "?n * sum_list (map (\<lambda>x. (x - ?a) * (x - ?a)) xs) =
        ?n * sum_list (map (\<lambda>x. x * x) xs) - sum_list xs * sum_list xs"
    unfolding sum_sq_dev using n0 by (simp add: field_simps)
  with z n0 have "sum_list (map (\<lambda>x. (x - ?a) * (x - ?a)) xs) = 0" by simp
  moreover have "\<forall>v \<in> set (map (\<lambda>x. (x - ?a) * (x - ?a)) xs). 0 \<le> v" by auto
  ultimately have "\<forall>v \<in> set (map (\<lambda>x. (x - ?a) * (x - ?a)) xs). v = 0"
    using sum_list_nonneg_eq_0_iff by blast
  then have all: "\<forall>x \<in> set xs. x = ?a" by auto
  from assms(2) obtain x y zs where xs: "xs = x # y # zs"
    by (cases xs; cases "tl xs") auto
  with all have "x = y" by simp
  with assms(1) xs show False by simp
qed

lemma normal_equations:
  fixes n sx sy sxx sxy d :: rat
  assumes d: "d = n * sxx - sx * sx" and d0: "d \<noteq> 0"
  shows "(n * sxy - sx * sy) / d * sxx + (sxx * sy - sx * sxy) / d * sx = sxy"
    and "(n * sxy - sx * sy) / d * sx + (sxx * sy - sx * sxy) / d * n = sy"
proof -
  have 1: "(n * sxy - sx * sy) * sxx + (sxx * sy - sx * sxy) * sx = sxy * d"
    by (simp add: d algebra_simps)
  have 2: "(n * sxy - sx * sy) * sx + (sxx * sy - sx * sxy) * n = sy * d"
    by (simp add: d algebra_simps)
  have "(n * sxy - sx * sy) / d * sxx + (sxx * sy - sx * sxy) / d * sx
        = ((n * sxy - sx * sy) * sxx + (sxx * sy - sx * sxy) * sx) / d"
    by (simp add: add_divide_distrib)
  also have "\<dots> = sxy" unfolding 1 using d0 by simp
  finally show "(n * sxy - sx * sy) / d * sxx + (sxx * sy - sx * sxy) / d * sx = sxy" .
  have "(n * sxy - sx * sy) / d * sx + (sxx * sy - sx * sxy) / d * n
        = ((n * sxy - sx * sy) * sx + (sxx * sy - sx * sxy) * n) / d"
    by (simp add: add_divide_distrib)
  also have "\<dots> = sy" unfolding 2 using d0 by simp
  finally show "(n * sxy - sx * sy) / d * sx + (sxx * sy - sx * sxy) / d * n = sy" .
qed

lemma sum_line_sq:
  fixes pts :: "(rat \<times> rat) list"
  shows "sum_list (map (\<lambda>(x, y). (a * x + b) * (a * x + b)) pts) =
     a * a * sum_list (map (\<lambda>(x, y). x * x) pts) + 2 * a * b * sum_list (map fst pts)
     + of_nat (length pts) * (b * b)"
  by (induction pts) (auto simp: algebra_simps)

lemma lstsq_least:
  fixes pts :: "(rat \<times> rat) list"
  assumes "distinct (map fst pts)" and "2 \<le> length pts"
    and "lstsq (map fst pts) (map snd pts) = (m0, c0)"
  shows "sse pts m0 c0 \<le> sse pts m c"
proof -
  let ?n = "of_nat (length pts) :: rat"
  let ?sx = "sum_list (map fst pts)"
  let ?sy = "sum_list (map snd pts)"
  let ?sxx = "sum_list (map (\<lambda>(x, y). x * x) pts)"
  let ?sxy = "sum_list (map (\<lambda>(x, y). x * y) pts)"
  let ?d = "?n * ?sxx - ?sx * ?sx"
  have sxx: "sum_list (map (\<lambda>a. a * a) (map fst pts)) = ?sxx"
    by (induction pts) auto
  have zip: "zip (map fst pts) (map snd pts) = pts" by (simp add: zip_map_fst_snd)
  have d0: "?d \<noteq> 0" using det_pos [OF assms(1)] assms(2) sxx by simp
  from assms(3) d0 have m0: "m0 = (?n * ?sxy - ?sx * ?sy) / ?d" and c0: "c0 = (?sxx * ?sy - ?sx * ?sxy) / ?d"
    unfolding lstsq_def Let_def sxx zip by simp_all
  have ne1: "m0 * ?sxx + c0 * ?sx = ?sxy"
    unfolding m0 c0 by (rule normal_equations(1) [OF refl d0])
  have ne2: "m0 * ?sx + c0 * ?n = ?sy"
    unfolding m0 c0 by (rule normal_equations(2) [OF refl d0])
  let ?a = "m - m0" and ?b = "c - c0"
  have "sse pts m c - sse pts m0 c0 = ?a * ?a * ?sxx + 2 * ?a * ?b * ?sx + ?n * (?b * ?b)"
    unfolding sse_expand ne1 [symmetric] ne2 [symmetric] by (simp add: algebra_simps)
  also have "\<dots> = sum_list (map (\<lambda>(x, y). (?a * x + ?b) * (?a * x + ?b)) pts)"
    by (simp only: sum_line_sq)
  also have "\<dots> \<ge> 0" by (intro sum_list_nonneg) auto
  finally show ?thesis by simp
qed

lemma detect_col_SomeD: "detect_col cands cols = Some c \<Longrightarrow> lower c \<in> set cands \<and> c \<in> set cols"
  by (induction cands) (auto split: option.splits dest: find_SomeD)

lemma to_numeric_cases: "to_numeric P c = NaN \<or> (\<exists>y. to_numeric P c = Num y)"
  by (cases c) (auto split: option.splits)

lemma map_fst_groupby: "map fst (groupby rs c) = group_keys (map (\<lambda>r. cell_at r c) rs)"
  by (simp add: groupby_def comp_def)

lemma distinct_group_keys: "distinct (group_keys cs)"
  by (simp add: group_keys_def)

lemma set_group_keys: "set (group_keys cs) = set cs - {NaN}"
  by (auto simp: group_keys_def)

lemma lower_year: "lower ''year'' = ''year''" by code_simp
lemma lower_pt: "lower ''production_tonnes'' = ''production_tonnes''" by code_simp

lemma detect_default:
  assumes "lower d \<in> set cands"
  shows "lower (if truthy (detect_col cands cols) then the (detect_col cands cols) else d) \<in> set cands"
    and "lower (if \<not> truthy (detect_col cands cols) then d else the (detect_col cands cols)) \<in> set cands"
  using assms by (cases "detect_col cands cols"; auto simp: truthy_def dest: detect_col_SomeD)+

lemma trend_columns_facts:
  assumes "trend_columns df = (ny, yc, cc, pc)"
  shows "lower yc \<in> {''year'', ''season''}" and "lower pc \<in> {''production_tonnes'', ''production''}"
proof -
  have "yc = fst (snd (trend_columns df))" and "pc = snd (snd (snd (trend_columns df)))"
    by (simp_all only: assms fst_conv snd_conv)
  then have y: "yc = (if \<not> truthy (detect_col [''year'', ''season''] (columns df)) then ''year''
                 else the (detect_col [''year'', ''season''] (columns df)))"
    and p: "pc = (if truthy (detect_col [''production_tonnes'', ''production''] (columns df))
                  then the (detect_col [''production_tonnes'', ''production''] (columns df))
                  else ''production_tonnes'')"
    by (simp_all only: trend_columns_def Let_def fst_conv snd_conv)
  have "lower ''year'' \<in> set [''year'', ''season'']" by (simp add: lower_year)
  from detect_default(2) [OF this, of "columns df"]
  show "lower yc \<in> {''year'', ''season''}" unfolding y by simp
  have "lower ''production_tonnes'' \<in> set [''production_tonnes'', ''production'']"
    by (simp add: lower_pt)
  from detect_default(1) [OF this, of "columns df"]
  show "lower pc \<in> {''production_tonnes'', ''production''}" unfolding p by simp
qed

lemma yearly_sums_keys:
  assumes "yearly_sums P R df crop rf = Inr (ty, gs)" and "trend_columns df = (ny, yc, cc, pc)"
  shows "distinct (map fst gs)" and "\<forall>p \<in> set gs. \<exists>y. fst p = Num y" and "ty = yc \<or> ty = ''year''"
proof -
  define df1 where "df1 = (if ny then set_col df ''year'' (\<lambda>r. NaN) else df)"
  define df2 where "df2 = set_col df1 pc (\<lambda>r. fillna0 (to_numeric P (cell_at r pc)))"
  define dff where "dff = fold (\<lambda>(k, v) dff.
                  if k \<in> set (columns dff)
                  then dff\<lparr>rows := filter (\<lambda>r. cell_eq (cell_at r k) v) (rows dff)\<rparr>
                  else dff)
              (case rf of None \<Rightarrow> [] | Some kvs \<Rightarrow> kvs)
              (df2\<lparr>rows := filter (\<lambda>r. lower (cell_str R (cell_at r cc)) = lower crop) (rows df2)\<rparr>)"
  define yf where "yf = (\<lambda>r. if ny then Num (- (2 ^ 63)) else to_numeric P (cell_at r yc))"
  define dff' where "dff' = set_col dff yc yf"
  define grouped where
    "grouped = map (\<lambda>(k, g). (k, sum_list (dropna (map (\<lambda>r. cell_at r pc) g)))) (groupby (rows dff') yc)"
  define single where "single = [(Num 0, sum_list (dropna (series dff pc)))]"
  have ys: "yearly_sums P R df crop rf =
     (if pc \<notin> set (columns df1) then Inl (AttributeError ''int object has no attribute fillna'')
      else if cc \<notin> set (columns df2) then Inl (KeyError cc)
      else if yc \<in> set (columns dff) then Inr (yc, grouped) else Inr (''year'', single))"
    unfolding df1_def df2_def dff_def dff'_def yf_def grouped_def single_def yearly_sums_def Let_def
      assms(2) prod.case
    by (rule refl)
  from assms(1) have cases: "(ty = yc \<and> gs = grouped) \<or> (ty = ''year'' \<and> gs = single)"
    unfolding ys by (simp split: if_splits)
  then show "ty = yc \<or> ty = ''year''" by auto
  have keys: "map fst grouped = group_keys (map (\<lambda>r. cell_at r yc) (rows dff'))"
    unfolding grouped_def
    by (simp add: map_fst_groupby [symmetric] comp_def case_prod_beta)
  have dk: "distinct (map fst grouped)" by (simp only: keys distinct_group_keys)
  have ds: "distinct (map fst single)" by (simp add: single_def)
  from cases dk ds show "distinct (map fst gs)" by blast
  have num: "\<forall>k \<in> set (group_keys (map (\<lambda>r. cell_at r yc) (rows dff'))). \<exists>y. k = Num y"
  proof
    fix k assume "k \<in> set (group_keys (map (\<lambda>r. cell_at r yc) (rows dff')))"
    then have k: "k \<noteq> NaN" and "k \<in> (\<lambda>r. cell_at r yc) ` set (rows dff')"
      by (auto simp: set_group_keys)
    then obtain r where "k = yf r"
      by (auto simp: dff'_def set_col_def cell_at_update)
    with k to_numeric_cases [of P "cell_at r yc"] show "\<exists>y. k = Num y"
      unfolding yf_def by (cases ny) auto
  qed
  have ng: "\<forall>p \<in> set grouped. \<exists>y. fst p = Num y"
  proof
    fix p assume "p \<in> set grouped"
    then have "fst p \<in> set (map fst grouped)" by simp
    then have "fst p \<in> set (group_keys (map (\<lambda>r. cell_at r yc) (rows dff')))" by (simp only: keys)
    with num show "\<exists>y. fst p = Num y" by blast
  qed
  have ns: "\<forall>p \<in> set single. \<exists>y. fst p = Num y" by (simp add: single_def)
  from cases ng ns show "\<forall>p \<in> set gs. \<exists>y. fst p = Num y" by blast
qed

lemma dropna_map_Num:
  assumes "\<forall>k \<in> set ks. \<exists>y. k = Num y"
  shows "map Num (dropna ks) = ks"
  using assms by (induction ks) (auto simp: dropna_def List.map_filter_def)

lemma dropna_Num: "dropna (map Num vs) = vs"
  by (induction vs) (auto simp: dropna_def List.map_filter_def)

lemma production_trend_result:
  assumes "production_trend P R df crop rf = Inr (ts, meta)"
  shows "\<exists>ty gs. distinct (map fst gs) \<and> (\<forall>p \<in> set gs. \<exists>y. fst p = Num y)
      \<and> ty \<noteq> ''production_tonnes''
      \<and> ts = \<lparr>columns = [ty, ''production_tonnes''],
               rows = map (\<lambda>(k, v). [(ty, k), (''production_tonnes'', Num v)]) gs\<rparr>
      \<and> (if 2 \<le> length gs
          then (slope_per_year meta, intercept meta) = lstsq (dropna (map fst gs)) (map snd gs)
          else slope_per_year meta = 0 \<and> intercept meta = sum_list (map snd gs))"
proof -
  obtain ny yc cc pc where tc: "trend_columns df = (ny, yc, cc, pc)" by (cases "trend_columns df") auto
  from assms tc obtain ty gs where ys: "yearly_sums P R df crop rf = Inr (ty, gs)"
    unfolding production_trend_def by (auto split: sum.splits)
  note k = yearly_sums_keys [OF ys tc]
  from trend_columns_facts [OF tc] have lyc: "lower yc \<in> {''year'', ''season''}"
    and lpc: "lower pc \<in> {''production_tonnes'', ''production''}" by auto
  have "lower yc \<noteq> lower pc" using lyc lpc by auto
  then have ycpc: "yc \<noteq> pc" by auto
  have "lower ''year'' \<noteq> lower pc" using lpc by (auto simp: lower_year)
  then have ypc: "''year'' \<noteq> pc" by auto
  from k(3) ycpc ypc have typc: "ty \<noteq> pc" by auto
  have "lower yc \<noteq> lower ''production_tonnes''" using lyc by (auto simp: lower_pt)
  then have "yc \<noteq> ''production_tonnes''" by auto
  with k(3) have typt: "ty \<noteq> ''production_tonnes''" by auto
  let ?ts0 = "\<lparr>columns = [ty, pc], rows = map (\<lambda>(k, v). [(ty, k), (pc, Num v)]) gs\<rparr>"
  have s_year: "series ?ts0 ty = map fst gs"
    by (simp add: series_def cell_at_def comp_def case_prod_beta)
  have s_prod: "series ?ts0 pc = map (\<lambda>p. Num (snd p)) gs"
    using typc by (simp add: series_def cell_at_def comp_def case_prod_beta)
  have d_prod: "dropna (series ?ts0 pc) = map snd gs"
    unfolding s_prod using dropna_Num [of "map snd gs"] by (simp add: comp_def)
  have ren: "map (map (\<lambda>(c, v). (if c = pc then ''production_tonnes'' else c, v))) (rows ?ts0)
      = map (\<lambda>(k, v). [(ty, k), (''production_tonnes'', Num v)]) gs"
    using typc by (simp add: comp_def case_prod_beta)
  have cols: "map (\<lambda>c. if c = pc then ''production_tonnes'' else c) (columns ?ts0)
      = [ty, ''production_tonnes'']"
    using typc by simp
  have ts: "ts = \<lparr>columns = [ty, ''production_tonnes''],
               rows = map (\<lambda>(k, v). [(ty, k), (''production_tonnes'', Num v)]) gs\<rparr>"
    using assms tc ys typc unfolding production_trend_def Let_def
    by (auto simp: comp_def case_prod_beta split: if_splits prod.splits)
  have fit: "if 2 \<le> length gs
          then (slope_per_year meta, intercept meta) = lstsq (dropna (map fst gs)) (map snd gs)
          else slope_per_year meta = 0 \<and> intercept meta = sum_list (map snd gs)"
  proof (cases "2 \<le> length gs")
    case True
    with assms tc ys have y: "''year'' \<in> set (columns ?ts0)"
      unfolding production_trend_def Let_def by (auto split: if_splits prod.splits)
    with ypc have "ty = ''year''" by auto
    with s_year have sy: "series ?ts0 ''year'' = map fst gs" by simp
    from assms tc ys True y
    have "(slope_per_year meta, intercept meta)
            = lstsq (dropna (series ?ts0 ''year'')) (dropna (series ?ts0 pc))"
      unfolding production_trend_def Let_def by (auto split: if_splits prod.splits)
    with True show ?thesis by (simp only: sy d_prod if_True)
  next
    case False
    with assms tc ys
    have "slope_per_year meta = 0 \<and> intercept meta = sum_list (dropna (series ?ts0 pc))"
      unfolding production_trend_def Let_def by (auto split: if_splits prod.splits)
    with False show ?thesis by (simp only: d_prod if_False)
  qed
  from k(1) k(2) typt ts fit show ?thesis by blast
qed

lemma ts_points_eq:
  assumes "\<forall>p \<in> set gs. \<exists>y. fst p = Num y" and "ty \<noteq> ''production_tonnes''"
  shows "ts_points \<lparr>columns = [ty, ''production_tonnes''],
               rows = map (\<lambda>(k, v). [(ty, k), (''production_tonnes'', Num v)]) gs\<rparr>
         = zip (dropna (map fst gs)) (map snd gs)"
proof -
  have "dropna (map (\<lambda>p. Num (snd p)) gs) = map snd gs"
    using dropna_Num [of "map snd gs"] by (simp add: comp_def)
  then show ?thesis
    using assms(2) by (simp add: ts_points_def series_def cell_at_def comp_def case_prod_beta)
qed

lemma zip_two:
  assumes "zip xs ys = [(a, b), (c, d)]" and "length xs = length ys"
  shows "xs = [a, c] \<and> ys = [b, d]"
proof -
  have "map fst (zip xs ys) = xs" "map snd (zip xs ys) = ys"
    using assms(2) by simp_all
  moreover have "map fst (zip xs ys) = [a, c]" "map snd (zip xs ys) = [b, d]"
    by (simp_all only: assms(1) list.map fst_conv snd_conv)
  ultimately show ?thesis by simp
qed

lemma lstsq_two: "lstsq [2018, 2019] [100, 120] = (20, 100 - 20 * 2018)"
  by (simp add: lstsq_def)

lemma production_trend_fit:
  assumes a: "production_trend P R df crop rf = Inr (ts, meta)"
  shows "length (ts_points ts) = length (rows ts)
     \<and> distinct (map fst (ts_points ts))
     \<and> (2 \<le> length (ts_points ts) \<longrightarrow>
          (\<forall>m c. sse (ts_points ts) (slope_per_year meta) (intercept meta) \<le> sse (ts_points ts) m c))
     \<and> (ts_points ts = [(2018, 100), (2019, 120)] \<longrightarrow>
          slope_per_year meta = 20 \<and> intercept meta = 100 - 20 * 2018)
     \<and> (ts_points ts = [] \<longrightarrow> slope_per_year meta = 0 \<and> intercept meta = 0)
     \<and> (\<forall>x y. ts_points ts = [(x, y)] \<longrightarrow> slope_per_year meta = 0 \<and> intercept meta = y)"
proof -
  from production_trend_result [OF a] obtain ty gs where
    d: "distinct (map fst gs)" and n: "\<forall>p \<in> set gs. \<exists>y. fst p = Num y"
    and ty: "ty \<noteq> ''production_tonnes''"
    and ts: "ts = \<lparr>columns = [ty, ''production_tonnes''],
               rows = map (\<lambda>(k, v). [(ty, k), (''production_tonnes'', Num v)]) gs\<rparr>"
    and fit: "if 2 \<le> length gs
          then (slope_per_year meta, intercept meta) = lstsq (dropna (map fst gs)) (map snd gs)
          else slope_per_year meta = 0 \<and> intercept meta = sum_list (map snd gs)"
    by blast
  define xs where "xs = dropna (map fst gs)"
  define ys where "ys = map snd gs"
  have pts: "ts_points ts = zip xs ys"
    unfolding ts xs_def ys_def by (rule ts_points_eq [OF _ ty]) (use n in blast)
  have keys: "map Num xs = map fst gs"
    unfolding xs_def by (rule dropna_map_Num) (use n in auto)
  then have "length (map Num xs) = length (map fst gs)" by (rule arg_cong)
  then have lx: "length xs = length gs" by (simp only: length_map)
  have ly: "length ys = length gs" by (simp add: ys_def)
  have len: "length xs = length ys" by (simp only: lx ly)
  have "distinct (map Num xs)" by (simp only: keys d)
  then have dx: "distinct xs" by (simp only: distinct_map)
  have fst_pts: "map fst (zip xs ys) = xs" and snd_pts: "map snd (zip xs ys) = ys"
    using len by simp_all
  have lp: "length (zip xs ys) = length gs" using lx ly by simp
  have lr: "length (rows ts) = length gs" by (simp add: ts)
  have fit2: "2 \<le> length gs \<Longrightarrow> (slope_per_year meta, intercept meta) = lstsq xs ys"
    using fit by (simp only: xs_def ys_def if_True)
  have fit1: "\<not> 2 \<le> length gs \<Longrightarrow> slope_per_year meta = 0 \<and> intercept meta = sum_list ys"
    using fit by (simp only: ys_def if_False)
  show ?thesis
    unfolding pts
  proof (intro conjI impI allI)
    show "length (zip xs ys) = length (rows ts)" by (simp only: lp lr)
    show "distinct (map fst (zip xs ys))" by (simp only: fst_pts dx)
  next
    fix m c assume "2 \<le> length (zip xs ys)"
    then have two: "2 \<le> length gs" by (simp only: lp)
    have l: "lstsq (map fst (zip xs ys)) (map snd (zip xs ys)) = (slope_per_year meta, intercept meta)"
      by (simp only: fst_pts snd_pts fit2 [OF two])
    have d': "distinct (map fst (zip xs ys))" by (simp only: fst_pts dx)
    have two': "2 \<le> length (zip xs ys)" by (simp only: lp two)
    show "sse (zip xs ys) (slope_per_year meta) (intercept meta) \<le> sse (zip xs ys) m c"
      by (rule lstsq_least [OF d' two' l])
  next
    assume e: "zip xs ys = [(2018, 100), (2019, 120)]"
    have "length (zip xs ys) = 2" by (simp only: e) simp
    then have two: "2 \<le> length gs" by (simp only: lp)
    from zip_two [OF e len] have "xs = [2018, 2019]" "ys = [100, 120]" by blast+
    with fit2 [OF two] have "(slope_per_year meta, intercept meta) = lstsq [2018, 2019] [100, 120]"
      by (simp only:)
    then have "(slope_per_year meta, intercept meta) = (20, 100 - 20 * 2018)"
      by (simp only: lstsq_two)
    then show "slope_per_year meta = 20" and "intercept meta = 100 - 20 * 2018"
      by (simp_all only: prod.inject)
  next
    assume e: "zip xs ys = []"
    have "length (zip xs ys) = 0" by (simp only: e) simp
    then have l0: "length gs = 0" by (simp only: lp)
    then have "ys = []" by (simp add: ys_def)
    moreover from l0 have "\<not> 2 \<le> length gs" by simp
    ultimately show "slope_per_year meta = 0" and "intercept meta = 0"
      using fit1 by simp_all
  next
    fix x y assume e: "zip xs ys = [(x, y)]"
    have "map snd (zip xs ys) = [y]" by (simp only: e) simp
    then have y: "ys = [y]" by (simp only: snd_pts)
    then have "length gs = 1" using ly by simp
    then have "\<not> 2 \<le> length gs" by simp
    from fit1 [OF this] y show "slope_per_year meta = 0" and "intercept meta = y"
      by simp_all
  qed
qed

text \<open>
  Claim C8. Whenever \<^verbatim>\<open>production_trend\<close> returns, every row of the series it returns is
  a point (year, yearly sum), and the years are distinct. With two points or more the
  slope and the intercept are those of the least-squares line: no line has a smaller sum
  of squared residuals on the points. On the points \<open>(2018, 100)\<close> and \<open>(2019, 120)\<close> the
  slope is 20 and the intercept \<open>100 - 20 * 2018\<close>. With one point the slope is 0 and the
  intercept is its sum, with none both are 0.

  But the function does not return on every table with yearly sums. It reads the years of
  the series under the label \<^verbatim>\<open>"year"\<close> (line 161), while the series carries the label of
  the detected year column: on a table whose year column is labelled \<^verbatim>\<open>Year\<close>, with two
  years of wheat, it raises \<^verbatim>\<open>KeyError\<close> instead of fitting the line.
\<close>

theorem production_trend_line:
  "(production_trend P R df crop rf = Inr (ts, meta) \<longrightarrow>
      length (ts_points ts) = length (rows ts)
      \<and> distinct (map fst (ts_points ts))
      \<and> (2 \<le> length (ts_points ts) \<longrightarrow>
           (\<forall>m c. sse (ts_points ts) (slope_per_year meta) (intercept meta) \<le> sse (ts_points ts) m c))
      \<and> (ts_points ts = [(2018, 100), (2019, 120)] \<longrightarrow>
           slope_per_year meta = 20 \<and> intercept meta = 100 - 20 * 2018)
      \<and> (ts_points ts = [] \<longrightarrow> slope_per_year meta = 0 \<and> intercept meta = 0)
      \<and> (\<forall>x y. ts_points ts = [(x, y)] \<longrightarrow> slope_per_year meta = 0 \<and> intercept meta = y))
   \<and> production_trend P R crop_capital_year ''Wheat'' None = Inl (KeyError ''year'')"
proof (rule conjI)
  show "production_trend P R crop_capital_year ''Wheat'' None = Inl (KeyError ''year'')"
    by code_simp
qed (rule impI, erule production_trend_fit)

text \<open>
  The theorem at the table with the wheat of 2018 and of 2019, where the slope is 20 and
  the line is the least-squares one, and at the sample table, with one year of wheat.
\<close>

theorem production_trend_line_witness:
  "production_trend (\<lambda>s. None) (\<lambda>x. []) crop_two_years ''Wheat'' None
     = Inr (\<lparr>columns = [''year'', ''production_tonnes''],
             rows = [[(''year'', Num 2018), (''production_tonnes'', Num 100)],
                     [(''year'', Num 2019), (''production_tonnes'', Num 120)]]\<rparr>,
            \<lparr>slope_per_year = 20, intercept = 100 - 20 * 2018\<rparr>)
   \<and> (\<forall>m c. sse [(2018, 100), (2019, 120)] 20 (100 - 20 * 2018) \<le> sse [(2018, 100), (2019, 120)] m c)
   \<and> production_trend (\<lambda>s. None) (\<lambda>x. []) sample_crop ''Wheat'' None
     = Inr (\<lparr>columns = [''year'', ''production_tonnes''],
             rows = [[(''year'', Num 2019), (''production_tonnes'', Num 1300)]]\<rparr>,
            \<lparr>slope_per_year = 0, intercept = 1300\<rparr>)"
proof -
  let ?ts = "\<lparr>columns = [''year'', ''production_tonnes''],
             rows = [[(''year'', Num 2018), (''production_tonnes'', Num 100)],
                     [(''year'', Num 2019), (''production_tonnes'', Num 120)]]\<rparr>"
  let ?meta = "\<lparr>slope_per_year = 20, intercept = 100 - 20 * 2018\<rparr>"
  have e: "production_trend (\<lambda>s. None) (\<lambda>x. []) crop_two_years ''Wheat'' None = Inr (?ts, ?meta)"
    by code_simp
  have p: "ts_points ?ts = [(2018, 100), (2019, 120)]" by code_simp
  have e1: "production_trend (\<lambda>s. None) (\<lambda>x. []) sample_crop ''Wheat'' None
     = Inr (\<lparr>columns = [''year'', ''production_tonnes''],
             rows = [[(''year'', Num 2019), (''production_tonnes'', Num 1300)]]\<rparr>,
            \<lparr>slope_per_year = 0, intercept = 1300\<rparr>)"
    by code_simp
  have l: "2 \<le> length (ts_points ?ts)" by (simp only: p) simp
  from production_trend_line [THEN conjunct1, THEN mp, OF e, THEN conjunct2, THEN conjunct2,
      THEN conjunct1, THEN mp, OF l]
  have s: "\<forall>m c. sse [(2018, 100), (2019, 120)] 20 (100 - 20 * 2018) \<le> sse [(2018, 100), (2019, 120)] m c"
    by (simp only: p trend_meta.simps simp_thms)
  show ?thesis by (rule conjI [OF e conjI [OF s e1]])
qed

end
